theory Spec2Isabelle
  imports Complex_Main "HOL-Library.Word"
begin

section \<open>Export utilities of kepler.gl (src/utils/export-utils.js)\<close>

text \<open>
  A shallow embedding of the export helpers, in the order of the source. JavaScript
  numbers are idealised: comparisons and quotients are exact, the rounding of IEEE
  doubles and the values NaN and Infinity are outside the model.
\<close>

subsection \<open>Errors and \<open>undefined\<close>\<close>

text \<open>
  Exceptions are values: a function that can throw returns \<open>js_error + 'a\<close>, with
  \<open>Inl\<close> the exception. \<open>TypeError\<close> is what reading a property of \<open>undefined\<close> or
  \<open>null\<close> throws, \<open>InvalidCharacterError\<close> is the DOMException of \<open>atob\<close>, and
  \<open>NotFoundError\<close> the DOMException of \<open>removeChild\<close>.
\<close>

datatype js_error = TypeError | InvalidCharacterError | NotFoundError

text \<open>\<open>a || b\<close> on values that are either an object (truthy) or \<open>undefined\<close>.\<close>

definition js_or :: "'a option \<Rightarrow> 'a option \<Rightarrow> 'a option" where
  "js_or a b = (case a of Some v \<Rightarrow> Some v | None \<Rightarrow> b)"

text \<open>
  \<open>xs[i]\<close>: the element at index \<open>i\<close>, or \<open>undefined\<close> (\<open>None\<close>) out of
  range.
\<close>

definition js_nth :: "'a list \<Rightarrow> nat \<Rightarrow> 'a option" where
  "js_nth xs i = (if i < length xs then Some (xs ! i) else None)"

subsection \<open>Scale of an exported image\<close>

text \<open>
  \<^verbatim>\<open>
  export function getScaleFromImageSize(imageW, imageH, mapW, mapH) {
    if ([imageW, imageH, mapW, mapH].some(d => d <= 0)) {
      return 1;
    }
    const base = imageW / imageH > 1 ? imageW : imageH;
    const mapBase = imageW / imageH > 1 ? mapW : mapH;
    const scale = base / mapBase;
    return scale;
  }
  \<close>
\<close>

definition getScaleFromImageSize :: "real \<Rightarrow> real \<Rightarrow> real \<Rightarrow> real \<Rightarrow> real" where
  "getScaleFromImageSize imageW imageH mapW mapH =
     (if list_ex (\<lambda>d. d \<le> 0) [imageW, imageH, mapW, mapH] then 1
      else
        let base = (if imageW / imageH > 1 then imageW else imageH);
            mapBase = (if imageW / imageH > 1 then mapW else mapH);
            scale = base / mapBase
        in scale)"

subsection \<open>Size of an exported image\<close>

text \<open>
  The preset tables and the identifiers come from \<open>constants/default-settings\<close>, which
  is not part of the source under verification: they are parameters of the model,
  collected in the record \<open>default_settings\<close>. A preset is an object with an \<open>id\<close>
  and a sizing function \<open>getSize\<close> that returns \<open>{width, height}\<close>; a resolution
  preset has a \<open>scale\<close> as well. The numbers of the tables and of the map's
  dimensions are of a type \<open>'n\<close>, any linearly ordered ring: the whole pixels of a
  screen (\<^typ>\<open>int\<close>) or fractions of them (\<^typ>\<open>real\<close>).
\<close>

record 'n dimensions =
  width :: 'n
  height :: 'n

record 'n resolution_option =
  resolution_id :: string
  resolution_scale :: 'n
  resolution_getSize :: "'n \<Rightarrow> 'n \<Rightarrow> 'n dimensions"

record 'n ratio_option =
  ratio_id :: string
  ratio_getSize :: "'n \<Rightarrow> 'n \<Rightarrow> 'n dimensions"

record 'n default_settings =
  EXPORT_IMG_RESOLUTION_OPTIONS :: "'n resolution_option list"
  EXPORT_IMG_RATIO_OPTIONS :: "'n ratio_option list"
  RESOLUTIONS_ONE_X :: string
  EXPORT_IMG_RATIOS_FOUR_BY_THREE :: string
  EXPORT_IMG_RATIOS_CUSTOM :: string
  EXPORT_DATA_TYPE_CSV :: string

text \<open>
  \<^verbatim>\<open>
  const defaultResolution = EXPORT_IMG_RESOLUTION_OPTIONS.find(
    op => op.id === RESOLUTIONS.ONE_X
  );
  const defaultRatio = EXPORT_IMG_RATIO_OPTIONS.find(op => op.id === EXPORT_IMG_RATIOS.FOUR_BY_THREE);
  \<close>
  \<open>Array.prototype.find\<close> returns the first match, or \<open>undefined\<close> (here \<open>None\<close>).
\<close>

definition defaultResolution :: "'n default_settings \<Rightarrow> 'n resolution_option option" where
  "defaultResolution cfg =
     find (\<lambda>op. resolution_id op = RESOLUTIONS_ONE_X cfg) (EXPORT_IMG_RESOLUTION_OPTIONS cfg)"

definition defaultRatio :: "'n default_settings \<Rightarrow> 'n ratio_option option" where
  "defaultRatio cfg =
     find (\<lambda>op. ratio_id op = EXPORT_IMG_RATIOS_FOUR_BY_THREE cfg) (EXPORT_IMG_RATIO_OPTIONS cfg)"

text \<open>
  The two lookups of \<open>calculateExportImageSize\<close>:
  \<^verbatim>\<open>
  const ratioItem = EXPORT_IMG_RATIO_OPTIONS.find(op => op.id === ratio) || defaultRatio;
  const resolutionItem =
    EXPORT_IMG_RESOLUTION_OPTIONS.find(op => op.id === resolution) || defaultResolution;
  \<close>
\<close>

definition ratioItem :: "'n default_settings \<Rightarrow> string \<Rightarrow> 'n ratio_option option" where
  "ratioItem cfg ratio =
     js_or (find (\<lambda>op. ratio_id op = ratio) (EXPORT_IMG_RATIO_OPTIONS cfg)) (defaultRatio cfg)"

definition resolutionItem ::
  "'n default_settings \<Rightarrow> string \<Rightarrow> 'n resolution_option option"
where
  "resolutionItem cfg resolution =
     js_or (find (\<lambda>op. resolution_id op = resolution) (EXPORT_IMG_RESOLUTION_OPTIONS cfg))
       (defaultResolution cfg)"

text \<open>The result object \<open>{scale, imageW, imageH}\<close>; \<open>scale = None\<close> is \<open>undefined\<close>.\<close>

record 'n export_image_size =
  scale :: "'n option"
  imageW :: 'n
  imageH :: 'n

text \<open>
  \<^verbatim>\<open>
  export function calculateExportImageSize({mapW, mapH, ratio, resolution}) {
    if (mapW <= 0 || mapH <= 0) {
      return null;
    }
    const ratioItem = ...;
    const resolutionItem = ...;
    const {width: scaledWidth, height: scaledHeight} = resolutionItem.getSize(mapW, mapH);
    const {width: imageW, height: imageH} = ratioItem.getSize(scaledWidth, scaledHeight);
    const {scale} = ratioItem.id === EXPORT_IMG_RATIOS.CUSTOM ? {} : resolutionItem;
    return {scale, imageW, imageH};
  }
  \<close>
  The result \<open>Inr None\<close> is \<open>null\<close>. When a lookup and its default are both
  \<open>undefined\<close>, the call of \<open>getSize\<close> on it throws a TypeError.
\<close>

definition calculateExportImageSize ::
  "'n::linordered_idom default_settings \<Rightarrow> 'n \<Rightarrow> 'n \<Rightarrow> string \<Rightarrow> string \<Rightarrow>
   js_error + 'n export_image_size option"
where
  "calculateExportImageSize cfg mapW mapH ratio resolution =
     (if mapW \<le> 0 \<or> mapH \<le> 0 then Inr None
      else
        (case resolutionItem cfg resolution of
          None \<Rightarrow> Inl TypeError
        | Some resItem \<Rightarrow>
            let scaled = resolution_getSize resItem mapW mapH;
                scaledWidth = width scaled;
                scaledHeight = height scaled
            in
              (case ratioItem cfg ratio of
                None \<Rightarrow> Inl TypeError
              | Some ratItem \<Rightarrow>
                  let final = ratio_getSize ratItem scaledWidth scaledHeight;
                      sc = (if ratio_id ratItem = EXPORT_IMG_RATIOS_CUSTOM cfg then None
                            else Some (resolution_scale resItem))
                  in Inr (Some \<lparr>scale = sc, imageW = width final, imageH = height final\<rparr>))))"

text \<open>
  What the theorems below ask of a table: every sizing function maps strictly positive
  dimensions to strictly positive dimensions.
\<close>

definition positive_sizing :: "('n::linordered_idom \<Rightarrow> 'n \<Rightarrow> 'n dimensions) \<Rightarrow> bool" where
  "positive_sizing f = (\<forall>w h. 0 < w \<and> 0 < h \<longrightarrow> 0 < width (f w h) \<and> 0 < height (f w h))"

definition positive_settings :: "'n::linordered_idom default_settings \<Rightarrow> bool" where
  "positive_settings cfg =
     (list_all (\<lambda>op. positive_sizing (resolution_getSize op)) (EXPORT_IMG_RESOLUTION_OPTIONS cfg) \<and>
      list_all (\<lambda>op. positive_sizing (ratio_getSize op)) (EXPORT_IMG_RATIO_OPTIONS cfg))"

text \<open>
  Modelled from the spec: the preset tables of \<open>constants/default-settings\<close>, which the
  source imports and does not contain. The spec describes a resolution preset "1x" that
  is the identity and "2x" that doubles, each with its scale factor, and ratio presets
  that honour a fixed aspect ratio (4:3 among them, the default) or, for "custom", pass
  the dimensions through unchanged. This table is used to instantiate the theorems at
  concrete inputs only; the theorems hold for every table.
\<close>

definition example_settings :: "real default_settings" where
  "example_settings =
     \<lparr>EXPORT_IMG_RESOLUTION_OPTIONS =
        [\<lparr>resolution_id = ''ONE_X'', resolution_scale = 1,
           resolution_getSize = (\<lambda>w h. \<lparr>width = w, height = h\<rparr>)\<rparr>,
         \<lparr>resolution_id = ''TWO_X'', resolution_scale = 2,
           resolution_getSize = (\<lambda>w h. \<lparr>width = w * 2, height = h * 2\<rparr>)\<rparr>],
      EXPORT_IMG_RATIO_OPTIONS =
        [\<lparr>ratio_id = ''CUSTOM'', ratio_getSize = (\<lambda>w h. \<lparr>width = w, height = h\<rparr>)\<rparr>,
         \<lparr>ratio_id = ''FOUR_BY_THREE'',
           ratio_getSize = (\<lambda>w h. \<lparr>width = w, height = w * 3 / 4\<rparr>)\<rparr>],
      RESOLUTIONS_ONE_X = ''ONE_X'',
      EXPORT_IMG_RATIOS_FOUR_BY_THREE = ''FOUR_BY_THREE'',
      EXPORT_IMG_RATIOS_CUSTOM = ''CUSTOM'',
      EXPORT_DATA_TYPE_CSV = ''csv''\<rparr>"

subsection \<open>Blobs\<close>

text \<open>
  \<open>Blob\<close> is the browser's (imported from \<open>global/window\<close>). A blob holds the
  parts its constructor was given, an \<open>ArrayBuffer\<close> of bytes or a string, and a
  type. The constructor of the File API does not keep the \<open>type\<close> option as it is: a
  type with a character outside U+0020 to U+007E becomes the empty string, and every
  other type is converted to ASCII lowercase.
\<close>

datatype blob_part = BufferPart "8 word list" | StringPart string

record blob =
  blob_parts :: "blob_part list"
  blob_type :: string

definition type_char :: "char \<Rightarrow> bool" where
  "type_char c \<longleftrightarrow> 32 \<le> (of_char c :: nat) \<and> (of_char c :: nat) \<le> 126"

definition ascii_lowercase :: "char \<Rightarrow> char" where
  "ascii_lowercase c =
     (case map_of (zip ''ABCDEFGHIJKLMNOPQRSTUVWXYZ'' ''abcdefghijklmnopqrstuvwxyz'') c of
        Some l \<Rightarrow> l
      | None \<Rightarrow> c)"

definition normalize_type :: "string \<Rightarrow> string" where
  "normalize_type t = (if list_all type_char t then map ascii_lowercase t else [])"

text \<open>\<open>new Blob(parts, {type})\<close>.\<close>

definition new_Blob :: "blob_part list \<Rightarrow> string \<Rightarrow> blob" where
  "new_Blob ps ty = \<lparr>blob_parts = ps, blob_type = normalize_type ty\<rparr>"

subsection \<open>Base64 and \<open>atob\<close>\<close>

text \<open>
  JavaScript strings are modelled as \<^typ>\<open>string\<close>: a code unit is a \<^typ>\<open>char\<close>,
  which has eight bits, so the model covers the strings of code units below 256. A data
  URI is such a string, and so is the binary string that \<open>atob\<close> returns.

  The alphabet of RFC 4648, Table 1: the digit of the value \<open>n\<close> is the \<open>n\<close>-th
  character.
\<close>

definition base64_alphabet :: string where
  "base64_alphabet = ''ABCDEFGHIJKLMNOPQRSTUVWXYZabcdefghijklmnopqrstuvwxyz0123456789+/''"

definition base64_digit :: "nat \<Rightarrow> char" where
  "base64_digit n = base64_alphabet ! n"

fun index_of :: "'a \<Rightarrow> 'a list \<Rightarrow> nat option" where
  "index_of x [] = None"
| "index_of x (y # ys) = (if x = y then Some 0 else map_option Suc (index_of x ys))"

definition base64_value :: "char \<Rightarrow> nat option" where
  "base64_value c = index_of c base64_alphabet"

text \<open>
  The encoder of RFC 4648, section 4, which the round trip of a data URI is stated
  with: each group of three bytes gives four 6-bit values; a last group of two bytes is
  filled with two zero bits and gives three values, a last group of one byte is filled
  with four zero bits and gives two; the text is filled with \<open>=\<close> to a multiple of
  four characters.
\<close>

fun sextets :: "8 word list \<Rightarrow> nat list" where
  "sextets (a # b # c # bs) =
     (let n = unat a * 65536 + unat b * 256 + unat c
      in [n div 262144, n div 4096 mod 64, n div 64 mod 64, n mod 64]) @ sextets bs"
| "sextets [a, b] =
     (let n = (unat a * 256 + unat b) * 4
      in [n div 4096, n div 64 mod 64, n mod 64])"
| "sextets [a] =
     (let n = unat a * 16
      in [n div 64, n mod 64])"
| "sextets [] = []"

definition base64 :: "8 word list \<Rightarrow> string" where
  "base64 bs =
     map base64_digit (sextets bs) @ replicate ((3 - length bs mod 3) mod 3) (CHR ''='')"

text \<open>The digits of the encoding, without the \<open>=\<close> that fill it.\<close>

definition base64_body :: "8 word list \<Rightarrow> string" where
  "base64_body bs = map base64_digit (sextets bs)"

text \<open>
  \<open>atob\<close> is the browser's: the forgiving-base64 decode of the WHATWG Infra standard.
  \<^enum> Remove all ASCII whitespace (tab, line feed, form feed, carriage return, space).
  \<^enum> If the length is a multiple of four and the data ends with one or two \<open>=\<close>,
    remove them.
  \<^enum> If the length leaves a remainder of 1 modulo four, fail.
  \<^enum> If a character is not in the alphabet, fail.
  \<^enum> Append the six bits of each character to a buffer; each time the buffer holds
    24 bits, output them as three bytes and empty it.
  \<^enum> A buffer left with 12 bits gives one byte (the last four bits are dropped), one
    left with 18 bits gives two bytes (the last two bits are dropped).

  A failure is the exception InvalidCharacterError. The result is the string whose
  code units are the bytes.
\<close>

definition ascii_whitespace :: "char \<Rightarrow> bool" where
  "ascii_whitespace c \<longleftrightarrow> c \<in> set [CHR 0x09, CHR 0x0A, CHR 0x0C, CHR 0x0D, CHR 0x20]"

definition strip_padding :: "string \<Rightarrow> string" where
  "strip_padding d =
     (case rev d of
        x # y # r \<Rightarrow> if x = CHR ''='' then (if y = CHR ''='' then rev r else rev (y # r)) else d
      | [x] \<Rightarrow> if x = CHR ''='' then [] else d
      | [] \<Rightarrow> d)"

fun base64_values :: "string \<Rightarrow> nat list option" where
  "base64_values [] = Some []"
| "base64_values (c # cs) =
     (case base64_value c of
        None \<Rightarrow> None
      | Some v \<Rightarrow> map_option ((#) v) (base64_values cs))"

fun decode_sextets :: "nat list \<Rightarrow> 8 word list" where
  "decode_sextets (s1 # s2 # s3 # s4 # ss) =
     (let n = ((s1 * 64 + s2) * 64 + s3) * 64 + s4
      in [of_nat (n div 65536), of_nat (n div 256 mod 256), of_nat (n mod 256)])
     @ decode_sextets ss"
| "decode_sextets [s1, s2, s3] =
     (let n = ((s1 * 64 + s2) * 64 + s3) div 4
      in [of_nat (n div 256), of_nat (n mod 256)])"
| "decode_sextets [s1, s2] =
     (let n = (s1 * 64 + s2) div 16
      in [of_nat n])"
| "decode_sextets [s1] = []"
| "decode_sextets [] = []"

definition byte_char :: "8 word \<Rightarrow> char" where
  "byte_char b = char_of (unat b)"

definition atob :: "string \<Rightarrow> js_error + string" where
  "atob data =
     (let d1 = filter (\<lambda>c. \<not> ascii_whitespace c) data;
          d2 = (if length d1 mod 4 = 0 then strip_padding d1 else d1)
      in if length d2 mod 4 = 1 then Inl InvalidCharacterError
         else
           (case base64_values d2 of
              None \<Rightarrow> Inl InvalidCharacterError
            | Some ss \<Rightarrow> Inr (map byte_char (decode_sextets ss))))"

subsection \<open>Decoding a data URI\<close>

text \<open>
  \<open>s.split(sep)\<close> for a separator of one character: the pieces between the
  separators, at least one piece.
\<close>

fun js_split :: "char \<Rightarrow> string \<Rightarrow> string list" where
  "js_split sep [] = [[]]"
| "js_split sep (c # cs) =
     (if c = sep then [] # js_split sep cs
      else (case js_split sep cs of
              [] \<Rightarrow> [[c]]
            | p # ps \<Rightarrow> (c # p) # ps))"

text \<open>
  The loop that copies the binary string into the typed array \<open>ia\<close>, a view of the
  buffer \<open>ab\<close>:
  \<^verbatim>\<open>
  for (let i = 0; i < binary.length; i++) {
    ia[i] = binary.charCodeAt(i);
  }
  \<close>
  A \<open>Uint8Array\<close> stores a number modulo 256.
\<close>

function fill_bytes :: "string \<Rightarrow> nat \<Rightarrow> 8 word list \<Rightarrow> 8 word list" where
  "fill_bytes binary i ia =
     (if i < length binary
      then fill_bytes binary (Suc i) (ia[i := of_nat (of_char (binary ! i))])
      else ia)"
  by pat_completeness auto
termination
  by (relation "measure (\<lambda>(binary, i, ia). length binary - i)") auto

text \<open>
  \<^verbatim>\<open>
  export function dataURItoBlob(dataURI) {
    const binary = atob(dataURI.split(',')[1]);
    const mimeString = dataURI
      .split(',')[0]
      .split(':')[1]
      .split(';')[0];
    const ab = new ArrayBuffer(binary.length);
    const ia = new Uint8Array(ab);
    for (...) { ... }
    return new Blob([ab], {type: mimeString});
  }
  \<close>
  An array read out of range is \<open>undefined\<close>: \<open>atob(undefined)\<close> decodes the text
  \<open>undefined\<close>, and \<open>undefined.split\<close> throws a TypeError. A Blob built with the type
  \<open>undefined\<close> has the empty type.

  \<open>mimeString\<close> is the constant of that name, the value handed to the constructor as
  the \<open>type\<close> option (\<open>None\<close> is \<open>undefined\<close>).
\<close>

definition mimeString :: "string \<Rightarrow> js_error + string option" where
  "mimeString dataURI =
     (case js_nth (js_split (CHR '','') dataURI) 0 of
        None \<Rightarrow> Inl TypeError
      | Some header \<Rightarrow>
          (case js_nth (js_split (CHR '':'') header) 1 of
             None \<Rightarrow> Inl TypeError
           | Some rest \<Rightarrow> Inr (js_nth (js_split (CHR '';'') rest) 0)))"

definition dataURItoBlob :: "string \<Rightarrow> js_error + blob" where
  "dataURItoBlob dataURI =
     (case atob (case js_nth (js_split (CHR '','') dataURI) 1 of
                   None \<Rightarrow> ''undefined''
                 | Some payload \<Rightarrow> payload) of
        Inl e \<Rightarrow> Inl e
      | Inr binary \<Rightarrow>
          (case mimeString dataURI of
             Inl e \<Rightarrow> Inl e
           | Inr mime \<Rightarrow>
               let ab = replicate (length binary) 0;
                   ia = fill_bytes binary 0 ab
               in Inr (new_Blob [BufferPart ia] (case mime of None \<Rightarrow> [] | Some m \<Rightarrow> m))))"

subsection \<open>Object URLs and the download link\<close>

text \<open>
  \<open>URL\<close> and \<open>document\<close> are the browser's as well. The window state holds the
  live object URLs with the blobs they stand for, the next fresh URL, and the document.
  The three DOM calls of \<open>downloadFile\<close> are parameters: each takes the document,
  may change it, and may throw. \<open>click\<close> reads the live object URLs, since following
  the link reads the blob behind its \<open>href\<close>.
\<close>

type_synonym object_url = nat

record anchor =
  href :: "object_url option"
  download :: "string option"

record 'd window =
  objectURLs :: "(object_url \<times> blob) list"
  nextURL :: object_url
  document :: 'd

record 'd dom_ops =
  appendChild :: "anchor \<Rightarrow> 'd \<Rightarrow> (js_error + unit) \<times> 'd"
  click :: "(object_url \<times> blob) list \<Rightarrow> anchor \<Rightarrow> 'd \<Rightarrow> (js_error + unit) \<times> 'd"
  removeChild :: "anchor \<Rightarrow> 'd \<Rightarrow> (js_error + unit) \<times> 'd"

definition createObjectURL :: "blob \<Rightarrow> 'd window \<Rightarrow> object_url \<times> 'd window" where
  "createObjectURL b w =
     (nextURL w, w\<lparr>objectURLs := objectURLs w @ [(nextURL w, b)], nextURL := Suc (nextURL w)\<rparr>)"

definition revokeObjectURL :: "object_url \<Rightarrow> 'd window \<Rightarrow> 'd window" where
  "revokeObjectURL url w = w\<lparr>objectURLs := filter (\<lambda>(u, b). u \<noteq> url) (objectURLs w)\<rparr>"

definition createElement_a :: anchor where
  "createElement_a = \<lparr>href = None, download = None\<rparr>"

text \<open>
  \<^verbatim>\<open>
  export function downloadFile(fileBlob, filename) {
    const url = URL.createObjectURL(fileBlob);
    const link = document.createElement('a');
    link.setAttribute('href', url);
    link.setAttribute('download', filename);
    document.body.appendChild(link);
    link.click();
    document.body.removeChild(link);
    URL.revokeObjectURL(url);
  }
  \<close>
  There is no \<open>try\<close>: a call that throws ends the function there, with the state as it
  is at that point.
\<close>

definition downloadFile ::
  "'d dom_ops \<Rightarrow> blob \<Rightarrow> string \<Rightarrow> 'd window \<Rightarrow> (js_error + unit) \<times> 'd window"
where
  "downloadFile ops fileBlob filename w =
     (case createObjectURL fileBlob w of (url, w1) \<Rightarrow>
        let link = createElement_a\<lparr>href := Some url\<rparr>\<lparr>download := Some filename\<rparr> in
        (case appendChild ops link (document w1) of
          (Inl e, d2) \<Rightarrow> (Inl e, w1\<lparr>document := d2\<rparr>)
        | (Inr _, d2) \<Rightarrow>
            (case click ops (objectURLs w1) link d2 of
              (Inl e, d3) \<Rightarrow> (Inl e, w1\<lparr>document := d3\<rparr>)
            | (Inr _, d3) \<Rightarrow>
                (case removeChild ops link d3 of
                  (Inl e, d4) \<Rightarrow> (Inl e, w1\<lparr>document := d4\<rparr>)
                | (Inr _, d4) \<Rightarrow> (Inr (), revokeObjectURL url (w1\<lparr>document := d4\<rparr>))))))"

text \<open>
  A document to run the model on: \<open>body\<close> is the list of children of
  \<open>document.body\<close>, or \<open>None\<close> when \<open>document.body\<close> is \<open>null\<close> (then
  \<open>document.body.appendChild\<close> throws a TypeError); \<open>saved\<close> logs what each click
  on a download link saved, the blob behind the \<open>href\<close> and the file name.
  \<open>removeChild\<close> throws NotFoundError for a node that is not a child.
\<close>

record simple_document =
  body :: "anchor list option"
  saved :: "(blob option \<times> string option) list"

definition simple_ops :: "simple_document dom_ops" where
  "simple_ops =
     \<lparr>appendChild = (\<lambda>a d. case body d of
          None \<Rightarrow> (Inl TypeError, d)
        | Some cs \<Rightarrow> (Inr (), d\<lparr>body := Some (cs @ [a])\<rparr>)),
      click = (\<lambda>urls a d.
          (Inr (), d\<lparr>saved := saved d @
             [(case href a of None \<Rightarrow> None | Some u \<Rightarrow> map_of urls u, download a)]\<rparr>)),
      removeChild = (\<lambda>a d. case body d of
          None \<Rightarrow> (Inl TypeError, d)
        | Some cs \<Rightarrow> if a \<in> set cs then (Inr (), d\<lparr>body := Some (remove1 a cs)\<rparr>)
                     else (Inl NotFoundError, d))\<rparr>"

definition simple_window :: "anchor list option \<Rightarrow> simple_document window" where
  "simple_window b = \<lparr>objectURLs = [], nextURL = 0, document = \<lparr>body = b, saved = []\<rparr>\<rparr>"

definition liveURLs :: "'d window \<Rightarrow> object_url list" where
  "liveURLs w = map fst (objectURLs w)"

text \<open>The link that \<open>downloadFile\<close> builds for an object URL and a file name.\<close>

definition download_link :: "object_url \<Rightarrow> string \<Rightarrow> anchor" where
  "download_link url filename = \<lparr>href = Some url, download = Some filename\<rparr>"

subsection \<open>Export of the map as a document\<close>

text \<open>
  The value of an option that holds a token: \<open>undefined\<close>, \<open>null\<close> or a string.
\<close>

datatype js_token = Undefined | Null | Str string

text \<open>\<open>t || ''\<close>: \<open>undefined\<close>, \<open>null\<close> and the empty string are falsy.\<close>

fun or_empty :: "js_token \<Rightarrow> js_token" where
  "or_empty Undefined = Str []"
| "or_empty Null = Str []"
| "or_empty (Str s) = (if s = [] then Str [] else Str s)"

record 'm export_html_options =
  userMapboxToken :: js_token
  exportMapboxAccessToken :: js_token
  mode :: 'm

text \<open>
  The object \<open>data\<close>: the saved map (spread first, so the two keys after it win), the
  token and the mode.
\<close>

record ('s, 'm) export_html_data =
  savedMap :: 's
  mapboxApiAccessToken :: js_token
  data_mode :: 'm

definition DEFAULT_HTML_NAME :: string where
  "DEFAULT_HTML_NAME = ''kepler.gl.html''"

definition DEFAULT_DATA_NAME :: string where
  "DEFAULT_DATA_NAME = ''kepler-gl''"

text \<open>
  \<^verbatim>\<open>
  export function exportHtml(state, options) {
    const {userMapboxToken, exportMapboxAccessToken, mode} = options;
    const data = {
      ...KeplerGlSchema.save(state),
      mapboxApiAccessToken:
        (userMapboxToken || '') !== ''
          ? userMapboxToken
          : exportMapboxAccessToken,
      mode
    };
    const fileBlob = new Blob([exportMapToHTML(data)], {type: 'text/html'});
    downloadFile(fileBlob, DEFAULT_HTML_NAME);
  }
  \<close>
  \<open>KeplerGlSchema.save\<close> and \<open>exportMapToHTML\<close> are imported: parameters \<open>save\<close>
  and \<open>exportMapToHTML\<close>.
\<close>

definition exportHtml_data ::
  "('st \<Rightarrow> 's) \<Rightarrow> 'st \<Rightarrow> 'm export_html_options \<Rightarrow> ('s, 'm) export_html_data"
where
  "exportHtml_data save state options =
     \<lparr>savedMap = save state,
      mapboxApiAccessToken =
        (if or_empty (userMapboxToken options) \<noteq> Str []
         then userMapboxToken options
         else exportMapboxAccessToken options),
      data_mode = mode options\<rparr>"

definition exportHtml ::
  "'d dom_ops \<Rightarrow> ('st \<Rightarrow> 's) \<Rightarrow> (('s, 'm) export_html_data \<Rightarrow> string) \<Rightarrow>
   'st \<Rightarrow> 'm export_html_options \<Rightarrow> 'd window \<Rightarrow> (js_error + unit) \<times> 'd window"
where
  "exportHtml ops save exportMapToHTML state options w =
     (let data = exportHtml_data save state options;
          fileBlob = new_Blob [StringPart (exportMapToHTML data)] ''text/html''
      in downloadFile ops fileBlob DEFAULT_HTML_NAME w)"

subsection \<open>Export of the datasets\<close>

text \<open>
  A dataset, with the four fields \<open>exportData\<close> reads. \<open>filteredIdxCPU = None\<close> is a
  dataset without that field; \<open>fields'\<close> is the field \<open>fields\<close>. The indices are
  natural numbers.

  The collection \<open>datasets\<close> is a plain object keyed by dataset id: an association
  list of its own enumerable properties in iteration order, with distinct keys.
  \<open>Object.values\<close> lists their values in order. A property read \<open>datasets[k]\<close>
  finds an own property first and then a property inherited from
  \<open>Object.prototype\<close>, whose members are functions or, for \<open>__proto__\<close>, the
  prototype itself; only a name that is neither reads as \<open>undefined\<close>. A dataset and
  an inherited member are objects, so both are truthy.
\<close>

record ('r, 'f) dataset =
  allData :: "'r list"
  fields' :: 'f
  label :: string
  filteredIdxCPU :: "nat list option"

record export_data_option =
  selectedDataset :: string
  dataType :: string
  filtered :: bool

definition Object_prototype_keys :: "string list" where
  "Object_prototype_keys =
     [''constructor'', ''__defineGetter__'', ''__defineSetter__'', ''hasOwnProperty'',
      ''__lookupGetter__'', ''__lookupSetter__'', ''isPrototypeOf'', ''propertyIsEnumerable'',
      ''toString'', ''valueOf'', ''__proto__'', ''toLocaleString'']"

text \<open>
  What a property read of the collection gives: a dataset of its own, or the member of
  \<open>Object.prototype\<close> of that name.
\<close>

datatype 'ds property_value = Own 'ds | Inherited string

definition js_get :: "(string \<times> 'ds) list \<Rightarrow> string \<Rightarrow> 'ds property_value option" where
  "js_get obj k =
     (case map_of obj k of
        Some d \<Rightarrow> Some (Own d)
      | None \<Rightarrow> if k \<in> set Object_prototype_keys then Some (Inherited k) else None)"

text \<open>
  \<^verbatim>\<open>
  const selectedDatasets = datasets[selectedDataset]
    ? [datasets[selectedDataset]]
    : Object.values(datasets);
  \<close>
\<close>

definition selectedDatasets ::
  "(string \<times> 'ds) list \<Rightarrow> string \<Rightarrow> 'ds property_value list"
where
  "selectedDatasets datasets sel =
     (case js_get datasets sel of
        Some v \<Rightarrow> [v]
      | None \<Rightarrow> map (\<lambda>kv. Own (snd kv)) datasets)"

text \<open>
  \<^verbatim>\<open>
  const {allData, fields, label, filteredIdxCPU = []} = selectedData;
  const toExport = filtered ? filteredIdxCPU.map(i => allData[i]) : allData;
  \<close>
  The rows handed on are \<open>'r option\<close>: \<open>Some\<close> a row, or \<open>undefined\<close>.
\<close>

definition toExport :: "bool \<Rightarrow> ('r, 'f) dataset \<Rightarrow> 'r option list" where
  "toExport flt selectedData =
     (let idx = (case filteredIdxCPU selectedData of None \<Rightarrow> [] | Some is \<Rightarrow> is) in
      if flt then map (\<lambda>i. js_nth (allData selectedData) i) idx
      else map Some (allData selectedData))"

text \<open>
  The body of the \<open>forEach\<close>:
  \<^verbatim>\<open>
  switch (dataType) {
    case EXPORT_DATA_TYPE.CSV: {
      const csv = formatCsv(toExport, fields);
      const fileBlob = new Blob([csv], {type: 'text/csv'});
      downloadFile(fileBlob, `${filename}_${label}.csv`);
      break;
    }
    // TODO: support more file types.
    default:
      break;
  }
  \<close>
  \<open>formatCsv\<close> is imported: a parameter.
\<close>

definition exportDataset ::
  "'n default_settings \<Rightarrow> 'd dom_ops \<Rightarrow> ('r option list \<Rightarrow> 'f \<Rightarrow> string) \<Rightarrow> string \<Rightarrow>
   export_data_option \<Rightarrow> ('r, 'f) dataset \<Rightarrow> 'd window \<Rightarrow> (js_error + unit) \<times> 'd window"
where
  "exportDataset cfg ops formatCsv filename option selectedData w =
     (if dataType option = EXPORT_DATA_TYPE_CSV cfg then
        let csv = formatCsv (toExport (filtered option) selectedData) (fields' selectedData);
            fileBlob = new_Blob [StringPart csv] ''text/csv''
        in downloadFile ops fileBlob (filename @ ''_'' @ label selectedData @ ''.csv'') w
      else (Inr (), w))"

text \<open>
  The same body run on a selected value. A dataset is exported as above. An inherited
  member has none of the four fields: \<open>allData\<close>, \<open>fields\<close> and \<open>label\<close> are
  \<open>undefined\<close> and \<open>filteredIdxCPU\<close> takes its default, so \<open>toExport\<close> is
  \<open>[]\<close> when \<open>filtered\<close> is true and \<open>undefined\<close> otherwise, the serializer is
  called with \<open>undefined\<close> fields, and the file name is built from the label
  \<open>undefined\<close>. What the imported \<open>formatCsv\<close> does without fields, return a text
  or throw, is the parameter \<open>formatCsv_undefined\<close>.
\<close>

definition exportSelected ::
  "'n default_settings \<Rightarrow> 'd dom_ops \<Rightarrow> ('r option list \<Rightarrow> 'f \<Rightarrow> string) \<Rightarrow>
   ('r option list option \<Rightarrow> js_error + string) \<Rightarrow> string \<Rightarrow>
   export_data_option \<Rightarrow> ('r, 'f) dataset property_value \<Rightarrow> 'd window \<Rightarrow>
   (js_error + unit) \<times> 'd window"
where
  "exportSelected cfg ops formatCsv formatCsv_undefined filename option selectedData w =
     (case selectedData of
        Own d \<Rightarrow> exportDataset cfg ops formatCsv filename option d w
      | Inherited _ \<Rightarrow>
          let toExport = (if filtered option then Some [] else None) in
          if dataType option = EXPORT_DATA_TYPE_CSV cfg then
            (case formatCsv_undefined toExport of
               Inl e \<Rightarrow> (Inl e, w)
             | Inr csv \<Rightarrow>
                 let fileBlob = new_Blob [StringPart csv] ''text/csv''
                 in downloadFile ops fileBlob (filename @ ''_'' @ ''undefined'' @ ''.csv'') w)
          else (Inr (), w))"

text \<open>\<open>forEach\<close> with a callback that may throw: the first exception ends the loop.\<close>

fun forEach ::
  "('a \<Rightarrow> 's \<Rightarrow> (js_error + unit) \<times> 's) \<Rightarrow> 'a list \<Rightarrow> 's \<Rightarrow> (js_error + unit) \<times> 's"
where
  "forEach f [] w = (Inr (), w)"
| "forEach f (x # xs) w =
     (case f x w of
        (Inl e, w') \<Rightarrow> (Inl e, w')
      | (Inr _, w') \<Rightarrow> forEach f xs w')"

text \<open>
  \<^verbatim>\<open>
  export function exportData(state, option) {
    const {visState} = state;
    const {datasets} = visState;
    const {selectedDataset, dataType, filtered} = option;
    const filename = DEFAULT_DATA_NAME;
    const selectedDatasets = ...;
    if (!selectedDatasets.length) {
      return;
    }
    selectedDatasets.forEach(selectedData => { ... });
  }
  \<close>
\<close>

definition exportData ::
  "'n default_settings \<Rightarrow> 'd dom_ops \<Rightarrow> ('r option list \<Rightarrow> 'f \<Rightarrow> string) \<Rightarrow>
   ('r option list option \<Rightarrow> js_error + string) \<Rightarrow>
   (string \<times> ('r, 'f) dataset) list \<Rightarrow> export_data_option \<Rightarrow> 'd window \<Rightarrow>
   (js_error + unit) \<times> 'd window"
where
  "exportData cfg ops formatCsv formatCsv_undefined datasets option w =
     (let filename = DEFAULT_DATA_NAME;
          sel = selectedDatasets datasets (selectedDataset option)
      in if length sel = 0 then (Inr (), w)
         else forEach (exportSelected cfg ops formatCsv formatCsv_undefined filename option) sel w)"

subsection \<open>Concrete inputs\<close>

text \<open>
  A collection of two datasets, a stand-in for the imported \<open>formatCsv\<close> (one line for
  the field names, one line per row, an \<open>undefined\<close> row as an empty line), and
  options.
\<close>

definition example_dataset :: "(string, string list) dataset" where
  "example_dataset =
     \<lparr>allData = [''r0'', ''r1'', ''r2''], fields' = [''name''], label = ''first'',
      filteredIdxCPU = Some [2, 0]\<rparr>"

definition example_dataset_no_index :: "(string, string list) dataset" where
  "example_dataset_no_index =
     \<lparr>allData = [''s0'', ''s1''], fields' = [''name''], label = ''second'',
      filteredIdxCPU = None\<rparr>"

definition example_datasets :: "(string \<times> (string, string list) dataset) list" where
  "example_datasets = [(''a'', example_dataset), (''b'', example_dataset_no_index)]"

definition example_formatCsv :: "string option list \<Rightarrow> string list \<Rightarrow> string" where
  "example_formatCsv rows fs =
     concat (map (\<lambda>l. l @ [CHR 0x0A])
       (concat fs # map (\<lambda>r. case r of None \<Rightarrow> [] | Some x \<Rightarrow> x) rows))"

text \<open>A stand-in for \<open>formatCsv\<close> called without fields: it returns the empty text.\<close>

definition example_formatCsv_undefined :: "string option list option \<Rightarrow> js_error + string" where
  "example_formatCsv_undefined rows = Inr []"

definition example_option :: "string \<Rightarrow> string \<Rightarrow> bool \<Rightarrow> export_data_option" where
  "example_option sel ty flt = \<lparr>selectedDataset = sel, dataType = ty, filtered = flt\<rparr>"

definition example_html_options :: "js_token \<Rightarrow> unit export_html_options" where
  "example_html_options t =
     \<lparr>userMapboxToken = t, exportMapboxAccessToken = Str ''pk.fallback'', mode = ()\<rparr>"

definition example_blob :: blob where
  "example_blob = new_Blob [StringPart ''a,b''] ''text/csv''"

section \<open>Properties\<close>

subsection \<open>getScaleFromImageSize\<close>

lemma getScaleFromImageSize_nonpositive:
  "iw \<le> 0 \<or> ih \<le> 0 \<or> mw \<le> 0 \<or> mh \<le> 0 \<Longrightarrow>
   getScaleFromImageSize iw ih mw mh = 1"
  by (auto simp: getScaleFromImageSize_def)

lemma getScaleFromImageSize_positive:
  assumes "0 < iw" "0 < ih" "0 < mw" "0 < mh"
  shows "getScaleFromImageSize iw ih mw mh =
         (if ih < iw then iw / mw else ih / mh)"
proof -
  have "(iw / ih > 1) = (ih < iw)"
    using assms by (simp add: field_simps)
  with assms show ?thesis
    by (simp add: getScaleFromImageSize_def Let_def)
qed

text \<open>
  C3, as stated, at a square image: the four arguments are positive and
  \<open>imageW \<ge> imageH\<close>, the claim promises \<open>imageW / mapW = 2\<close>, and the code takes
  the height axis (\<open>imageW / imageH > 1\<close> is false) and returns \<open>imageH / mapH = 1\<close>.
\<close>

theorem getScaleFromImageSize_square_counterexample:
  "(0::real) < 100 \<and> (0::real) < 50 \<and> (100::real) \<ge> 100 \<and>
   getScaleFromImageSize 100 100 50 100 = 1 \<and>
   getScaleFromImageSize 100 100 50 100 \<noteq> 100 / 50"
  by (simp add: getScaleFromImageSize_def)

text \<open>
  C3 (amended): \<open>getScaleFromImageSize\<close> returns exactly 1 whenever any of the four
  arguments is \<open>\<le> 0\<close>; for four strictly positive arguments it returns
  \<open>imageW / mapW\<close> when the image is strictly landscape (\<open>imageW > imageH\<close>) and
  \<open>imageH / mapH\<close> otherwise (portrait or square).
\<close>

theorem getScaleFromImageSize_spec:
  "(iw \<le> 0 \<or> ih \<le> 0 \<or> mw \<le> 0 \<or> mh \<le> 0 \<longrightarrow>
      getScaleFromImageSize iw ih mw mh = 1) \<and>
   (0 < iw \<and> 0 < ih \<and> 0 < mw \<and> 0 < mh \<longrightarrow>
      (iw > ih \<longrightarrow> getScaleFromImageSize iw ih mw mh = iw / mw) \<and>
      (iw \<le> ih \<longrightarrow> getScaleFromImageSize iw ih mw mh = ih / mh))"
  using getScaleFromImageSize_nonpositive [of iw ih mw mh]
    getScaleFromImageSize_positive [of iw ih mw mh]
  by auto

theorem getScaleFromImageSize_spec_witness:
  "getScaleFromImageSize 0 600 400 300 = 1 \<and>
   getScaleFromImageSize 800 600 400 300 = 2 \<and>
   getScaleFromImageSize 600 600 400 300 = 2 \<and>
   getScaleFromImageSize 300 600 400 200 = 3"
  using getScaleFromImageSize_spec [of 0 600 400 300]
    getScaleFromImageSize_spec [of 800 600 400 300]
    getScaleFromImageSize_spec [of 600 600 400 300]
    getScaleFromImageSize_spec [of 300 600 400 200]
  by simp

subsection \<open>calculateExportImageSize\<close>

lemma js_or_Some_iff: "js_or a b = Some v \<longleftrightarrow> a = Some v \<or> (a = None \<and> b = Some v)"
  by (cases a) (auto simp: js_or_def)

lemma find_Some_in_set: "find P xs = Some x \<Longrightarrow> x \<in> set xs"
  by (induction xs) (auto split: if_splits)

lemma ratioItem_in_table:
  "ratioItem cfg ratio = Some ri \<Longrightarrow> ri \<in> set (EXPORT_IMG_RATIO_OPTIONS cfg)"
  by (auto simp: ratioItem_def defaultRatio_def js_or_Some_iff dest: find_Some_in_set)

lemma resolutionItem_in_table:
  "resolutionItem cfg resolution = Some si \<Longrightarrow> si \<in> set (EXPORT_IMG_RESOLUTION_OPTIONS cfg)"
  by (auto simp: resolutionItem_def defaultResolution_def js_or_Some_iff dest: find_Some_in_set)

lemma ratioItem_defined:
  "defaultRatio cfg \<noteq> None \<Longrightarrow> \<exists>ri. ratioItem cfg ratio = Some ri"
  by (cases "find (\<lambda>op. ratio_id op = ratio) (EXPORT_IMG_RATIO_OPTIONS cfg)")
    (auto simp: ratioItem_def js_or_def)

lemma resolutionItem_defined:
  "defaultResolution cfg \<noteq> None \<Longrightarrow> \<exists>si. resolutionItem cfg resolution = Some si"
  by (cases "find (\<lambda>op. resolution_id op = resolution) (EXPORT_IMG_RESOLUTION_OPTIONS cfg)")
    (auto simp: resolutionItem_def js_or_def)

lemma calculateExportImageSize_null_iff:
  "calculateExportImageSize cfg mw mh ratio resolution = Inr None \<longleftrightarrow> mw \<le> 0 \<or> mh \<le> 0"
  by (auto simp: calculateExportImageSize_def Let_def split: option.splits)

lemma calculateExportImageSize_resolved:
  assumes "0 < mw" "0 < mh"
    and "ratioItem cfg ratio = Some ri" "resolutionItem cfg resolution = Some si"
  shows "calculateExportImageSize cfg mw mh ratio resolution =
         Inr (Some \<lparr>scale = (if ratio_id ri = EXPORT_IMG_RATIOS_CUSTOM cfg then None
                              else Some (resolution_scale si)),
                     imageW = width (ratio_getSize ri (width (resolution_getSize si mw mh))
                                        (height (resolution_getSize si mw mh))),
                     imageH = height (ratio_getSize ri (width (resolution_getSize si mw mh))
                                        (height (resolution_getSize si mw mh)))\<rparr>)"
  using assms by (simp add: calculateExportImageSize_def Let_def)

lemma example_settings_defaults:
  "defaultRatio example_settings \<noteq> None" "defaultResolution example_settings \<noteq> None"
  by (simp_all add: defaultRatio_def defaultResolution_def example_settings_def)

lemma example_settings_positive: "positive_settings example_settings"
  by (simp add: positive_settings_def positive_sizing_def example_settings_def)

text \<open>
  C1: \<open>calculateExportImageSize\<close> returns \<open>null\<close> exactly when \<open>mapW \<le> 0\<close> or
  \<open>mapH \<le> 0\<close>; for \<open>mapW > 0\<close>, \<open>mapH > 0\<close> and any ratio and resolution identifiers
  (an unknown identifier falls back to the default preset) it returns a geometry whose
  image width and image height are strictly positive. The preset tables are parameters:
  the second part is for every table that holds the two default presets and whose sizing
  functions map positive dimensions to positive dimensions.
\<close>

theorem calculateExportImageSize_null_or_positive:
  assumes "defaultRatio cfg \<noteq> None" "defaultResolution cfg \<noteq> None"
    and "positive_settings cfg"
  shows "(calculateExportImageSize cfg mw mh ratio resolution = Inr None \<longleftrightarrow> mw \<le> 0 \<or> mh \<le> 0) \<and>
         (0 < mw \<and> 0 < mh \<longrightarrow>
            (\<exists>g. calculateExportImageSize cfg mw mh ratio resolution = Inr (Some g) \<and>
                 0 < imageW g \<and> 0 < imageH g)) \<and>
         (find (\<lambda>op. ratio_id op = ratio) (EXPORT_IMG_RATIO_OPTIONS cfg) = None \<longrightarrow>
            ratioItem cfg ratio = defaultRatio cfg) \<and>
         (find (\<lambda>op. resolution_id op = resolution) (EXPORT_IMG_RESOLUTION_OPTIONS cfg) = None \<longrightarrow>
            resolutionItem cfg resolution = defaultResolution cfg)"
proof (intro conjI impI)
  show "calculateExportImageSize cfg mw mh ratio resolution = Inr None \<longleftrightarrow> mw \<le> 0 \<or> mh \<le> 0"
    by (rule calculateExportImageSize_null_iff)
next
  assume "find (\<lambda>op. ratio_id op = ratio) (EXPORT_IMG_RATIO_OPTIONS cfg) = None"
  then show "ratioItem cfg ratio = defaultRatio cfg"
    by (simp add: ratioItem_def js_or_def)
next
  assume "find (\<lambda>op. resolution_id op = resolution) (EXPORT_IMG_RESOLUTION_OPTIONS cfg) = None"
  then show "resolutionItem cfg resolution = defaultResolution cfg"
    by (simp add: resolutionItem_def js_or_def)
next
  assume pos: "0 < mw \<and> 0 < mh"
  obtain ri where ri: "ratioItem cfg ratio = Some ri"
    using ratioItem_defined [OF assms(1)] by blast
  obtain si where si: "resolutionItem cfg resolution = Some si"
    using resolutionItem_defined [OF assms(2)] by blast
  have "positive_sizing (resolution_getSize si)"
    using resolutionItem_in_table [OF si] assms(3)
    by (simp add: positive_settings_def list_all_iff)
  then have scaled: "0 < width (resolution_getSize si mw mh) \<and> 0 < height (resolution_getSize si mw mh)"
    using pos by (simp add: positive_sizing_def)
  have "positive_sizing (ratio_getSize ri)"
    using ratioItem_in_table [OF ri] assms(3)
    by (simp add: positive_settings_def list_all_iff)
  then have "0 < width (ratio_getSize ri (width (resolution_getSize si mw mh))
                 (height (resolution_getSize si mw mh))) \<and>
             0 < height (ratio_getSize ri (width (resolution_getSize si mw mh))
                 (height (resolution_getSize si mw mh)))"
    using scaled by (simp add: positive_sizing_def)
  then show "\<exists>g. calculateExportImageSize cfg mw mh ratio resolution = Inr (Some g) \<and>
                 0 < imageW g \<and> 0 < imageH g"
    using pos ri si by (simp add: calculateExportImageSize_resolved)
qed

lemma calculateExportImageSize_example:
  "calculateExportImageSize example_settings 800 600 ''no such ratio'' ''TWO_X'' =
   Inr (Some \<lparr>scale = Some 2, imageW = 1600, imageH = 1200\<rparr>)"
  by (simp add: calculateExportImageSize_def resolutionItem_def ratioItem_def defaultRatio_def
      defaultResolution_def js_or_def example_settings_def Let_def)

theorem calculateExportImageSize_null_or_positive_witness:
  "calculateExportImageSize example_settings 0 600 ''CUSTOM'' ''TWO_X'' = Inr None \<and>
   calculateExportImageSize example_settings 800 600 ''no such ratio'' ''TWO_X'' \<noteq> Inr None \<and>
   (\<exists>g. calculateExportImageSize example_settings 800 600 ''no such ratio'' ''TWO_X'' = Inr (Some g) \<and>
        0 < imageW g \<and> 0 < imageH g) \<and>
   calculateExportImageSize example_settings 800 600 ''no such ratio'' ''TWO_X'' =
     Inr (Some \<lparr>scale = Some 2, imageW = 1600, imageH = 1200\<rparr>)"
proof -
  note t = calculateExportImageSize_null_or_positive
      [OF example_settings_defaults example_settings_positive]
  have "calculateExportImageSize example_settings 0 600 ''CUSTOM'' ''TWO_X'' = Inr None"
    using t [of 0 600 "''CUSTOM''" "''TWO_X''"] by simp
  moreover have "calculateExportImageSize example_settings 800 600 ''no such ratio'' ''TWO_X'' \<noteq> Inr None"
    using t [of 800 600 "''no such ratio''" "''TWO_X''"] by simp
  moreover have "\<exists>g. calculateExportImageSize example_settings 800 600 ''no such ratio'' ''TWO_X'' =
      Inr (Some g) \<and> 0 < imageW g \<and> 0 < imageH g"
    using t [of 800 600 "''no such ratio''" "''TWO_X''"] by simp
  ultimately show ?thesis
    using calculateExportImageSize_example by simp
qed

text \<open>
  C2: for positive map dimensions, the \<open>scale\<close> of the result is \<open>undefined\<close> exactly
  when the resolved ratio preset is the custom one, whatever the resolution preset; for
  every other ratio preset it is the scale of the resolved resolution preset.
\<close>

theorem calculateExportImageSize_scale:
  assumes "0 < mw" "0 < mh"
    and "ratioItem cfg ratio = Some ri" "resolutionItem cfg resolution = Some si"
  shows "\<exists>g. calculateExportImageSize cfg mw mh ratio resolution = Inr (Some g) \<and>
             (scale g = None \<longleftrightarrow> ratio_id ri = EXPORT_IMG_RATIOS_CUSTOM cfg) \<and>
             (ratio_id ri \<noteq> EXPORT_IMG_RATIOS_CUSTOM cfg \<longrightarrow> scale g = Some (resolution_scale si))"
  using assms by (simp add: calculateExportImageSize_resolved)

lemma example_ratioItem:
  "ratioItem example_settings ''CUSTOM'' = Some (EXPORT_IMG_RATIO_OPTIONS example_settings ! 0)"
  "ratioItem example_settings ''unknown'' = Some (EXPORT_IMG_RATIO_OPTIONS example_settings ! 1)"
  by (simp_all add: ratioItem_def defaultRatio_def js_or_def example_settings_def)

lemma example_resolutionItem:
  "resolutionItem example_settings ''TWO_X'' = Some (EXPORT_IMG_RESOLUTION_OPTIONS example_settings ! 1)"
  by (simp add: resolutionItem_def defaultResolution_def js_or_def example_settings_def)

theorem calculateExportImageSize_scale_witness:
  "(\<exists>g. calculateExportImageSize example_settings 800 600 ''CUSTOM'' ''TWO_X'' = Inr (Some g) \<and>
        scale g = None) \<and>
   (\<exists>g. calculateExportImageSize example_settings 800 600 ''unknown'' ''TWO_X'' = Inr (Some g) \<and>
        scale g = Some 2)"
  using calculateExportImageSize_scale [OF _ _ example_ratioItem(1) example_resolutionItem, of 800 600]
    calculateExportImageSize_scale [OF _ _ example_ratioItem(2) example_resolutionItem, of 800 600]
  by (auto simp: example_settings_def)

subsection \<open>dataURItoBlob\<close>

lemma base64_alphabet_length: "length base64_alphabet = 64"
  by (simp add: base64_alphabet_def)

lemma base64_alphabet_distinct: "distinct base64_alphabet"
  by (simp add: base64_alphabet_def)

lemma alphabet_plain:
  "c \<in> set base64_alphabet \<Longrightarrow> c \<noteq> CHR ''='' \<and> c \<noteq> CHR '','' \<and> \<not> ascii_whitespace c"
  by (auto simp: base64_alphabet_def ascii_whitespace_def)

lemma byte_lt: "unat (a :: 8 word) < 256"
  using unsigned_less [of a, where ?'a = nat] by simp

lemma join64: "(n::nat) div 64 * 64 + n mod 64 = n"
  by simp

lemma sextets_join:
  "((n div 262144 * 64 + n div 4096 mod 64) * 64 + n div 64 mod 64) * 64 + n mod 64 = (n::nat)"
proof -
  have a: "n div 4096 = n div 64 div 64" "n div 262144 = n div 64 div 64 div 64"
    by (simp_all add: div_mult2_eq [symmetric])
  show ?thesis
    unfolding a by (simp only: join64)
qed

lemma sextets_bound: "\<forall>s \<in> set (sextets bs). s < 64"
proof (induction bs rule: sextets.induct)
  case (1 a b c bs)
  have "unat a * 65536 + unat b * 256 + unat c < 64 * 262144"
    using byte_lt [of a] byte_lt [of b] byte_lt [of c] by linarith
  then have "(unat a * 65536 + unat b * 256 + unat c) div 262144 < 64"
    by (rule less_mult_imp_div_less)
  with 1 show ?case by (simp add: Let_def)
next
  case (2 a b)
  have "(unat a * 256 + unat b) * 4 < 64 * 4096"
    using byte_lt [of a] byte_lt [of b] by simp
  then have "(unat a * 256 + unat b) * 4 div 4096 < 64"
    by (rule less_mult_imp_div_less)
  then show ?case by (simp add: Let_def)
next
  case (3 a)
  have "unat a * 16 < 64 * 64"
    using byte_lt [of a] by linarith
  then have "unat a * 16 div 64 < 64"
    by (rule less_mult_imp_div_less)
  then show ?case by (simp add: Let_def)
next
  case 4
  then show ?case by simp
qed

lemma length_sextets_mod:
  "length (sextets bs) mod 4 = (case length bs mod 3 of 0 \<Rightarrow> 0 | Suc 0 \<Rightarrow> 2 | _ \<Rightarrow> 3)"
proof (induction bs rule: sextets.induct)
  case (1 a b c bs)
  have "length (a # b # c # bs) = length bs + 3"
    by simp
  then have "length (a # b # c # bs) mod 3 = length bs mod 3"
    by (simp only: mod_add_self2)
  moreover have "length (sextets (a # b # c # bs)) = length (sextets bs) + 4"
    by (simp add: Let_def)
  then have "length (sextets (a # b # c # bs)) mod 4 = length (sextets bs) mod 4"
    by (simp only: mod_add_self2)
  ultimately show ?case using 1 by (simp only:)
qed (simp_all add: Let_def)

lemma sextets_join3: "(n div 4096 * 64 + n div 64 mod 64) * 64 + n mod 64 = (n::nat)"
proof -
  have a: "n div 4096 = n div 64 div 64"
    by (simp add: div_mult2_eq [symmetric])
  show ?thesis
    unfolding a by (simp only: join64)
qed

lemma decode_sextets_4:
  "decode_sextets (n div 262144 # n div 4096 mod 64 # n div 64 mod 64 # n mod 64 # ss) =
   [of_nat (n div 65536), of_nat (n div 256 mod 256), of_nat (n mod 256)] @ decode_sextets ss"
  by (simp only: decode_sextets.simps Let_def sextets_join)

lemma decode_sextets_3:
  "decode_sextets [n div 4096, n div 64 mod 64, n mod 64] =
   [of_nat (n div 4 div 256), of_nat (n div 4 mod 256)]"
  by (simp only: decode_sextets.simps Let_def sextets_join3)

lemma decode_sextets_2:
  "decode_sextets [n div 64, n mod 64] = [of_nat (n div 16)]"
  by (simp only: decode_sextets.simps Let_def join64)

lemma split3:
  assumes "b < 256" "c < 256"
  shows "(a * 65536 + b * 256 + c) div 65536 = (a::nat)"
    and "(a * 65536 + b * 256 + c) div 256 mod 256 = b"
    and "(a * 65536 + b * 256 + c) mod 256 = c"
proof -
  have "b * 256 + c < 65536" using assms by linarith
  then show "(a * 65536 + b * 256 + c) div 65536 = a"
    by (simp add: add.assoc)
  have "(a * 65536 + b * 256 + c) div 256 = a * 256 + b"
    using assms(2) by simp
  then show "(a * 65536 + b * 256 + c) div 256 mod 256 = b"
    using assms(1) by simp
  show "(a * 65536 + b * 256 + c) mod 256 = c"
    using assms(2) by (simp add: mod_add_left_eq [symmetric] add.assoc mod_mult_self4)
qed

lemma word_of_unat: "of_nat (unat (a :: 8 word)) = a"
  by simp

lemma decode_sextets_sextets: "decode_sextets (sextets bs) = bs"
proof (induction bs rule: sextets.induct)
  case (1 a b c bs)
  define n where "n = unat a * 65536 + unat b * 256 + unat c"
  have s: "sextets (a # b # c # bs) =
      n div 262144 # n div 4096 mod 64 # n div 64 mod 64 # n mod 64 # sextets bs"
    by (simp add: Let_def n_def)
  have "n div 65536 = unat a" "n div 256 mod 256 = unat b" "n mod 256 = unat c"
    unfolding n_def using split3 [OF byte_lt [of b] byte_lt [of c], of "unat a"] by simp_all
  then show ?case
    unfolding s decode_sextets_4 using 1 by (simp only: word_of_unat append.simps)
next
  case (2 a b)
  define n where "n = (unat a * 256 + unat b) * 4"
  have s: "sextets [a, b] = [n div 4096, n div 64 mod 64, n mod 64]"
    by (simp add: Let_def n_def)
  have "n div 4 = unat a * 256 + unat b"
    unfolding n_def by simp
  moreover have "(unat a * 256 + unat b) div 256 = unat a" "(unat a * 256 + unat b) mod 256 = unat b"
    using byte_lt [of b] by simp_all
  ultimately show ?case
    unfolding s decode_sextets_3 by (simp only: word_of_unat)
next
  case (3 a)
  define n where "n = unat a * 16"
  have s: "sextets [a] = [n div 64, n mod 64]"
    by (simp add: Let_def n_def)
  have "n div 16 = unat a"
    unfolding n_def by simp
  then show ?case
    unfolding s decode_sextets_2 by (simp only: word_of_unat)
next
  case 4
  then show ?case by simp
qed

lemma index_of_nth: "distinct xs \<Longrightarrow> i < length xs \<Longrightarrow> index_of (xs ! i) xs = Some i"
proof (induction xs arbitrary: i)
  case Nil
  then show ?case by simp
next
  case (Cons x xs)
  show ?case
  proof (cases i)
    case 0
    then show ?thesis by simp
  next
    case (Suc j)
    with Cons.prems have "xs ! j \<noteq> x" "j < length xs" "distinct xs"
      by auto
    with Cons.IH [of j] Suc show ?thesis by simp
  qed
qed

lemma base64_value_digit: "s < 64 \<Longrightarrow> base64_value (base64_digit s) = Some s"
  by (simp add: base64_value_def base64_digit_def index_of_nth base64_alphabet_distinct
      base64_alphabet_length)

lemma base64_digit_in_alphabet: "s < 64 \<Longrightarrow> base64_digit s \<in> set base64_alphabet"
  by (simp add: base64_digit_def base64_alphabet_length)

lemma base64_values_digits:
  "\<forall>s \<in> set ss. s < 64 \<Longrightarrow> base64_values (map base64_digit ss) = Some ss"
  by (induction ss) (simp_all add: base64_value_digit)

lemma strip_padding_body:
  assumes "CHR ''='' \<notin> set bd" "k \<le> 2"
  shows "strip_padding (bd @ replicate k (CHR ''='')) = bd"
proof -
  consider "k = 0" | "k = 1" | "k = 2" using assms(2) by linarith
  then show ?thesis
  proof cases
    case 1
    show ?thesis
    proof (cases "rev bd")
      case Nil
      with 1 show ?thesis by (simp add: strip_padding_def)
    next
      case (Cons x r)
      then have "x \<in> set bd"
        by (metis list.set_intros(1) set_rev)
      with assms(1) have "x \<noteq> CHR ''=''" by auto
      with 1 Cons show ?thesis
        by (cases r) (simp_all add: strip_padding_def)
    qed
  next
    case 2
    show ?thesis
    proof (cases "rev bd")
      case Nil
      with 2 show ?thesis by (simp add: strip_padding_def)
    next
      case (Cons x r)
      then have "x \<in> set bd"
        by (metis list.set_intros(1) set_rev)
      with assms(1) have "x \<noteq> CHR ''=''" by auto
      moreover have "bd = rev (x # r)"
        using Cons by (metis rev_rev_ident)
      ultimately show ?thesis using 2 Cons
        by (simp add: strip_padding_def)
    qed
  next
    case 3
    then have "replicate k (CHR ''='') = [CHR ''='', CHR ''='']"
      by (simp add: numeral_2_eq_2)
    then show ?thesis by (simp add: strip_padding_def)
  qed
qed

lemma base64_body_alphabet: "set (base64_body bs) \<subseteq> set base64_alphabet"
  using sextets_bound [of bs] by (auto simp: base64_body_def base64_digit_in_alphabet)

lemma base64_split: "base64 bs = base64_body bs @ replicate ((3 - length bs mod 3) mod 3) (CHR ''='')"
  by (simp add: base64_def base64_body_def)

lemma base64_no_whitespace: "filter (\<lambda>c. \<not> ascii_whitespace c) (base64 bs) = base64 bs"
proof -
  have "\<not> ascii_whitespace c" if "c \<in> set (base64 bs)" for c
  proof -
    from that consider "c \<in> set base64_alphabet" | "c = CHR ''=''"
      using base64_body_alphabet [of bs] by (auto simp: base64_split)
    then show ?thesis
    proof cases
      case 1
      then show ?thesis using alphabet_plain [of c] by simp
    next
      case 2
      then show ?thesis by (simp add: ascii_whitespace_def)
    qed
  qed
  then show ?thesis
    by (simp add: filter_id_conv)
qed

lemma base64_no_comma: "CHR '','' \<notin> set (base64 bs)"
proof
  assume "CHR '','' \<in> set (base64 bs)"
  then consider "CHR '','' \<in> set base64_alphabet" | "CHR '','' = CHR ''=''"
    using base64_body_alphabet [of bs] by (auto simp: base64_split)
  then show False
    by cases (use alphabet_plain [of "CHR '',''"] in simp_all)
qed

lemma length_base64_mod: "length (base64 bs) mod 4 = 0"
proof -
  have m: "length bs mod 3 < 3" by simp
  have l: "length (base64 bs) = length (sextets bs) + (3 - length bs mod 3) mod 3"
    by (simp add: base64_def)
  consider "length bs mod 3 = 0" | "length bs mod 3 = 1" | "length bs mod 3 = 2"
    using m by linarith
  then show ?thesis
  proof cases
    case 1
    with length_sextets_mod [of bs] show ?thesis by (simp add: l)
  next
    case 2
    with length_sextets_mod [of bs] have "length (sextets bs) mod 4 = 2" by simp
    then have "(length (sextets bs) + 2) mod 4 = 0" by presburger
    with 2 show ?thesis by (simp add: l)
  next
    case 3
    with length_sextets_mod [of bs] have "length (sextets bs) mod 4 = 3"
      by (simp add: numeral_2_eq_2)
    then have "(length (sextets bs) + 1) mod 4 = 0" by presburger
    with 3 show ?thesis by (simp add: l)
  qed
qed

lemma length_base64_body_mod: "length (base64_body bs) mod 4 \<noteq> Suc 0"
proof -
  have m: "length bs mod 3 < 3" by simp
  consider "length bs mod 3 = 0" | "length bs mod 3 = 1" | "length bs mod 3 = 2"
    using m by linarith
  then show ?thesis
    using length_sextets_mod [of bs]
    by cases (simp_all add: base64_body_def numeral_2_eq_2)
qed

lemma strip_padding_base64: "strip_padding (base64 bs) = base64_body bs"
proof -
  have "CHR ''='' \<notin> set (base64_body bs)"
    using base64_body_alphabet [of bs] alphabet_plain [of "CHR ''=''"] by auto
  moreover have "(3 - length bs mod 3) mod 3 \<le> 2"
    by simp
  ultimately show ?thesis
    unfolding base64_split by (rule strip_padding_body)
qed

lemma atob_base64: "atob (base64 bs) = Inr (map byte_char bs)"
proof -
  have v: "base64_values (base64_body bs) = Some (sextets bs)"
    unfolding base64_body_def by (rule base64_values_digits) (rule sextets_bound)
  show ?thesis
    by (simp add: atob_def Let_def base64_no_whitespace length_base64_mod strip_padding_base64
        length_base64_body_mod v decode_sextets_sextets)
qed

lemma js_split_not_Nil: "js_split sep s \<noteq> []"
  by (induction s) (auto split: list.splits)

lemma js_split_no_sep: "sep \<notin> set s \<Longrightarrow> js_split sep s = [s]"
  by (induction s) auto

lemma js_split_first: "sep \<notin> set a \<Longrightarrow> js_split sep (a @ sep # r) = a # js_split sep r"
  by (induction a) (auto split: list.splits)

lemma fill_bytes_take_drop:
  "length ia = length binary \<Longrightarrow> i \<le> length binary \<Longrightarrow>
   fill_bytes binary i ia = take i ia @ map (\<lambda>c. of_nat (of_char c)) (drop i binary)"
proof (induction binary i ia rule: fill_bytes.induct)
  case (1 binary i ia)
  show ?case
  proof (cases "i < length binary")
    case True
    then have "fill_bytes binary i ia =
        fill_bytes binary (Suc i) (ia[i := of_nat (of_char (binary ! i))])"
      by (simp del: fill_bytes.simps add: fill_bytes.simps [of binary i ia])
    also have "\<dots> = take (Suc i) (ia[i := of_nat (of_char (binary ! i))]) @
        map (\<lambda>c. of_nat (of_char c)) (drop (Suc i) binary)"
      using True "1.prems" by (intro "1.IH") simp_all
    also have "\<dots> = take i ia @ map (\<lambda>c. of_nat (of_char c)) (drop i binary)"
      using True "1.prems"
      by (simp add: take_Suc_conv_app_nth Cons_nth_drop_Suc [symmetric])
    finally show ?thesis .
  next
    case False
    with "1.prems" have "i = length binary" by simp
    with "1.prems" show ?thesis
      by (simp del: fill_bytes.simps add: fill_bytes.simps [of binary "length binary" ia])
  qed
qed

lemma fill_bytes_all:
  "fill_bytes binary 0 (replicate (length binary) 0) = map (\<lambda>c. of_nat (of_char c)) binary"
  by (simp del: fill_bytes.simps add: fill_bytes_take_drop)

lemma byte_of_byte_char: "of_nat (of_char (byte_char b)) = b"
proof -
  have "unat b mod 256 = unat b"
    using byte_lt [of b] by simp
  then show ?thesis
    by (simp add: byte_char_def)
qed

lemma dataURItoBlob_parts:
  assumes "js_split (CHR '','') uri = [header, payload]"
    and "js_split (CHR '':'') header = [scheme, rest]"
    and "js_split (CHR '';'') rest = m # ps"
    and "atob payload = Inr binary"
  shows "mimeString uri = Inr (Some m)"
    and "dataURItoBlob uri =
         Inr (new_Blob [BufferPart (map (\<lambda>c. of_nat (of_char c)) binary)] m)"
proof -
  show m: "mimeString uri = Inr (Some m)"
    using assms by (simp add: mimeString_def js_nth_def)
  show "dataURItoBlob uri =
         Inr (new_Blob [BufferPart (map (\<lambda>c. of_nat (of_char c)) binary)] m)"
    using assms(1,4)
    by (simp del: fill_bytes.simps add: dataURItoBlob_def m js_nth_def Let_def fill_bytes_all)
qed

lemma js_split_two:
  assumes "sep \<notin> set a" "sep \<notin> set b"
  shows "js_split sep (a @ sep # b) = [a, b]"
proof -
  have "js_split sep (a @ sep # b) = a # js_split sep b"
    using assms(1) by (rule js_split_first)
  also have "js_split sep b = [b]"
    using assms(2) by (rule js_split_no_sep)
  finally show ?thesis .
qed

lemma dataURItoBlob_wellformed:
  assumes "CHR '':'' \<notin> set M" "CHR '';'' \<notin> set M" "CHR '','' \<notin> set M"
  shows "mimeString (''data:'' @ M @ '';base64,'' @ base64 B) = Inr (Some M)"
    and "dataURItoBlob (''data:'' @ M @ '';base64,'' @ base64 B) = Inr (new_Blob [BufferPart B] M)"
proof -
  let ?uri = "''data:'' @ M @ '';base64,'' @ base64 B"
  have u: "?uri = (''data:'' @ M @ '';base64'') @ CHR '','' # base64 B"
    by simp
  have "CHR '','' \<notin> set (''data:'' @ M @ '';base64'')"
    using assms(3) by simp
  then have c: "js_split (CHR '','') ?uri = [''data:'' @ M @ '';base64'', base64 B]"
    unfolding u by (rule js_split_two) (rule base64_no_comma)
  have h: "''data:'' @ M @ '';base64'' = ''data'' @ CHR '':'' # (M @ '';base64'')"
    by simp
  have "CHR '':'' \<notin> set ''data''" "CHR '':'' \<notin> set (M @ '';base64'')"
    using assms(1) by simp_all
  then have d: "js_split (CHR '':'') (''data:'' @ M @ '';base64'') = [''data'', M @ '';base64'']"
    unfolding h by (rule js_split_two)
  have "CHR '';'' \<notin> set ''base64''"
    by simp
  with assms(2) have e: "js_split (CHR '';'') (M @ '';base64'') = [M, ''base64'']"
    by (rule js_split_two)
  have f: "map (\<lambda>c. of_nat (of_char c)) (map byte_char B) = B"
    by (simp add: comp_def byte_of_byte_char)
  show "mimeString ?uri = Inr (Some M)"
    by (rule dataURItoBlob_parts(1) [OF c d e atob_base64 [of B]])
  show "dataURItoBlob ?uri = Inr (new_Blob [BufferPart B] M)"
    using dataURItoBlob_parts(2) [OF c d e atob_base64 [of B]] by (simp only: f)
qed

lemma normalize_type_unchanged:
  assumes "list_all type_char t" "list_all (\<lambda>c. ascii_lowercase c = c) t"
  shows "normalize_type t = t"
  using assms by (simp add: normalize_type_def list_all_iff map_idI)

lemma normalize_type_examples:
  "normalize_type ''image/PNG'' = ''image/png''"
  "normalize_type ''image/png'' = ''image/png''"
  "normalize_type ''text/csv'' = ''text/csv''"
  "normalize_type ''text/html'' = ''text/html''"
  by (simp_all add: normalize_type_def type_char_def ascii_lowercase_def)

lemma base64_example: "base64 [0x89, 0x50, 0x4E, 0x47, 0xFF] = ''iVBOR/8=''"
  by (simp add: base64_def base64_digit_def base64_alphabet_def Let_def)

text \<open>
  C4, as stated, at the MIME type \<open>image/PNG\<close> (no \<open>:\<close>, \<open>;\<close> or \<open>,\<close>) and five
  bytes: the bytes come back as they were, and the type of the blob that
  \<open>dataURItoBlob\<close> returns is \<open>image/png\<close>, which is not the MIME type of the URI.
\<close>

theorem dataURItoBlob_type_counterexample:
  "dataURItoBlob (''data:image/PNG;base64,'' @ base64 [0x89, 0x50, 0x4E, 0x47, 0xFF]) =
     Inr \<lparr>blob_parts = [BufferPart [0x89, 0x50, 0x4E, 0x47, 0xFF]], blob_type = ''image/png''\<rparr> \<and>
   ''image/png'' \<noteq> ''image/PNG''"
proof -
  have "dataURItoBlob (''data:'' @ ''image/PNG'' @ '';base64,'' @ base64 [0x89, 0x50, 0x4E, 0x47, 0xFF])
      = Inr (new_Blob [BufferPart [0x89, 0x50, 0x4E, 0x47, 0xFF]] ''image/PNG'')"
    by (rule dataURItoBlob_wellformed(2)) simp_all
  then show ?thesis
    by (simp add: new_Blob_def normalize_type_examples)
qed

text \<open>
  C4 (amended): for every MIME type \<open>M\<close> without \<open>:\<close>, \<open>;\<close> and \<open>,\<close> and every
  byte sequence \<open>B\<close>, \<open>dataURItoBlob\<close> applied to the data URI
  \<open>data:M;base64,\<close> followed by the Base64 text of \<open>B\<close> extracts exactly \<open>M\<close>,
  character for character, as the type it hands to the Blob constructor, and returns a
  blob with exactly the bytes \<open>B\<close>; the binary string that \<open>atob\<close> decodes has one
  code unit per byte of \<open>B\<close>. The type of the blob is the constructor's normal form of
  \<open>M\<close>: \<open>M\<close> in ASCII lowercase when every character of \<open>M\<close> is in U+0020 to
  U+007E, and the empty string otherwise. It is \<open>M\<close> itself when \<open>M\<close> is in that range
  and has no uppercase letter.
\<close>

theorem dataURItoBlob_decodes:
  assumes "CHR '':'' \<notin> set M" "CHR '';'' \<notin> set M" "CHR '','' \<notin> set M"
  shows "mimeString (''data:'' @ M @ '';base64,'' @ base64 B) = Inr (Some M) \<and>
         dataURItoBlob (''data:'' @ M @ '';base64,'' @ base64 B) =
           Inr \<lparr>blob_parts = [BufferPart B],
                blob_type = (if list_all type_char M then map ascii_lowercase M else [])\<rparr> \<and>
         (list_all type_char M \<and> list_all (\<lambda>c. ascii_lowercase c = c) M \<longrightarrow>
            dataURItoBlob (''data:'' @ M @ '';base64,'' @ base64 B) =
              Inr \<lparr>blob_parts = [BufferPart B], blob_type = M\<rparr>) \<and>
         atob (base64 B) = Inr (map byte_char B) \<and>
         length (map byte_char B) = length B"
proof (intro conjI impI)
  show "mimeString (''data:'' @ M @ '';base64,'' @ base64 B) = Inr (Some M)"
    using assms by (rule dataURItoBlob_wellformed(1))
  have b: "dataURItoBlob (''data:'' @ M @ '';base64,'' @ base64 B) =
      Inr \<lparr>blob_parts = [BufferPart B], blob_type = normalize_type M\<rparr>"
    using dataURItoBlob_wellformed(2) [OF assms, of B] by (simp only: new_Blob_def)
  then show "dataURItoBlob (''data:'' @ M @ '';base64,'' @ base64 B) =
      Inr \<lparr>blob_parts = [BufferPart B],
           blob_type = (if list_all type_char M then map ascii_lowercase M else [])\<rparr>"
    by (simp only: normalize_type_def)
  show "atob (base64 B) = Inr (map byte_char B)"
    by (rule atob_base64)
  show "length (map byte_char B) = length B"
    by simp
  assume "list_all type_char M \<and> list_all (\<lambda>c. ascii_lowercase c = c) M"
  then have "normalize_type M = M"
    by (simp add: normalize_type_unchanged)
  with b show "dataURItoBlob (''data:'' @ M @ '';base64,'' @ base64 B) =
      Inr \<lparr>blob_parts = [BufferPart B], blob_type = M\<rparr>"
    by (simp only:)
qed

theorem dataURItoBlob_decodes_witness:
  "mimeString (''data:image/PNG;base64,'' @ base64 [0x89, 0x50, 0x4E, 0x47, 0xFF]) =
     Inr (Some ''image/PNG'') \<and>
   dataURItoBlob (''data:image/PNG;base64,'' @ base64 [0x89, 0x50, 0x4E, 0x47, 0xFF]) =
     Inr \<lparr>blob_parts = [BufferPart [0x89, 0x50, 0x4E, 0x47, 0xFF]], blob_type = ''image/png''\<rparr> \<and>
   dataURItoBlob (''data:image/png;base64,'' @ base64 [0x89, 0x50, 0x4E, 0x47, 0xFF]) =
     Inr \<lparr>blob_parts = [BufferPart [0x89, 0x50, 0x4E, 0x47, 0xFF]], blob_type = ''image/png''\<rparr> \<and>
   base64 [0x89, 0x50, 0x4E, 0x47, 0xFF] = ''iVBOR/8=''"
proof -
  have l: "list_all type_char ''image/PNG''" "list_all type_char ''image/png''"
    "list_all (\<lambda>c. ascii_lowercase c = c) ''image/png''"
    "map ascii_lowercase ''image/PNG'' = ''image/png''"
    by (simp_all add: type_char_def ascii_lowercase_def)
  have a: "mimeString (''data:image/PNG;base64,'' @ base64 [0x89, 0x50, 0x4E, 0x47, 0xFF]) =
      Inr (Some ''image/PNG'') \<and>
    dataURItoBlob (''data:image/PNG;base64,'' @ base64 [0x89, 0x50, 0x4E, 0x47, 0xFF]) =
      Inr \<lparr>blob_parts = [BufferPart [0x89, 0x50, 0x4E, 0x47, 0xFF]], blob_type = ''image/png''\<rparr>"
    using dataURItoBlob_decodes [of "''image/PNG''" "[0x89, 0x50, 0x4E, 0x47, 0xFF]"] l
    by simp
  have b: "dataURItoBlob (''data:image/png;base64,'' @ base64 [0x89, 0x50, 0x4E, 0x47, 0xFF]) =
      Inr \<lparr>blob_parts = [BufferPart [0x89, 0x50, 0x4E, 0x47, 0xFF]], blob_type = ''image/png''\<rparr>"
    using dataURItoBlob_decodes [of "''image/png''" "[0x89, 0x50, 0x4E, 0x47, 0xFF]"] l
    by simp
  show ?thesis
    using a b base64_example by simp
qed

subsection \<open>downloadFile\<close>

lemma liveURLs_createObjectURL:
  "liveURLs (snd (createObjectURL b w)) = liveURLs w @ [nextURL w]"
  by (simp add: createObjectURL_def liveURLs_def)

lemma liveURLs_document_update [simp]: "liveURLs (w\<lparr>document := d\<rparr>) = liveURLs w"
  by (simp add: liveURLs_def)

lemma liveURLs_revokeObjectURL:
  "liveURLs (revokeObjectURL url w) = filter (\<lambda>u. u \<noteq> url) (liveURLs w)"
  by (simp add: revokeObjectURL_def liveURLs_def filter_map comp_def case_prod_unfold)

lemma downloadFile_cases:
  "downloadFile ops fileBlob filename w =
     (case appendChild ops (download_link (nextURL w) filename) (document w) of
        (Inl e, d2) \<Rightarrow> (Inl e, (snd (createObjectURL fileBlob w))\<lparr>document := d2\<rparr>)
      | (Inr _, d2) \<Rightarrow>
          (case click ops (objectURLs w @ [(nextURL w, fileBlob)])
                  (download_link (nextURL w) filename) d2 of
            (Inl e, d3) \<Rightarrow> (Inl e, (snd (createObjectURL fileBlob w))\<lparr>document := d3\<rparr>)
          | (Inr _, d3) \<Rightarrow>
              (case removeChild ops (download_link (nextURL w) filename) d3 of
                (Inl e, d4) \<Rightarrow> (Inl e, (snd (createObjectURL fileBlob w))\<lparr>document := d4\<rparr>)
              | (Inr _, d4) \<Rightarrow>
                  (Inr (), revokeObjectURL (nextURL w)
                     ((snd (createObjectURL fileBlob w))\<lparr>document := d4\<rparr>)))))"
  by (simp add: downloadFile_def createObjectURL_def createElement_a_def download_link_def Let_def
      split: prod.splits sum.splits)

lemma downloadFile_returns:
  "fst (downloadFile ops fileBlob filename w) = Inr () \<Longrightarrow>
   nextURL w \<notin> set (liveURLs (snd (downloadFile ops fileBlob filename w)))"
  by (auto simp: downloadFile_cases liveURLs_revokeObjectURL split: prod.splits sum.splits)

lemma downloadFile_throws:
  "fst (downloadFile ops fileBlob filename w) = Inl e \<Longrightarrow>
   nextURL w \<in> set (liveURLs (snd (downloadFile ops fileBlob filename w)))"
  by (auto simp: downloadFile_cases liveURLs_createObjectURL split: prod.splits sum.splits)

lemma downloadFile_returns_iff:
  "fst (downloadFile ops fileBlob filename w) = Inr () \<longleftrightarrow>
   (\<exists>d2 d3 d4.
      appendChild ops (download_link (nextURL w) filename) (document w) = (Inr (), d2) \<and>
      click ops (objectURLs w @ [(nextURL w, fileBlob)]) (download_link (nextURL w) filename) d2
        = (Inr (), d3) \<and>
      removeChild ops (download_link (nextURL w) filename) d3 = (Inr (), d4))"
  by (auto simp: downloadFile_cases split: prod.splits sum.splits)

lemma downloadFile_simple_body:
  "downloadFile simple_ops b name (simple_window (Some [])) =
   (Inr (), \<lparr>objectURLs = [], nextURL = 1,
             document = \<lparr>body = Some [], saved = [(Some b, Some name)]\<rparr>\<rparr>)"
  by (simp add: downloadFile_def createObjectURL_def createElement_a_def Let_def simple_ops_def
      simple_window_def revokeObjectURL_def)

lemma downloadFile_simple_no_body:
  "downloadFile simple_ops b name (simple_window None) =
   (Inl TypeError, \<lparr>objectURLs = [(0, b)], nextURL = 1,
             document = \<lparr>body = None, saved = []\<rparr>\<rparr>)"
  by (simp add: downloadFile_def createObjectURL_def createElement_a_def Let_def simple_ops_def
      simple_window_def revokeObjectURL_def)

lemma downloadFile_simple_run:
  "downloadFile simple_ops b name
     \<lparr>objectURLs = [], nextURL = n, document = \<lparr>body = Some [], saved = s\<rparr>\<rparr> =
   (Inr (), \<lparr>objectURLs = [], nextURL = Suc n,
             document = \<lparr>body = Some [], saved = s @ [(Some b, Some name)]\<rparr>\<rparr>)"
  by (simp add: downloadFile_def createObjectURL_def createElement_a_def Let_def simple_ops_def
      revokeObjectURL_def)

text \<open>
  C7, as stated, where \<open>document.body\<close> is \<open>null\<close>: \<open>appendChild\<close> throws, the
  TypeError reaches the caller, and the object URL that was created (URL 0) is still
  registered afterwards.
\<close>

theorem downloadFile_leak_counterexample:
  "fst (createObjectURL example_blob (simple_window None)) = 0 \<and>
   fst (downloadFile simple_ops example_blob ''f.csv'' (simple_window None)) = Inl TypeError \<and>
   liveURLs (snd (downloadFile simple_ops example_blob ''f.csv'' (simple_window None))) = [0]"
  unfolding downloadFile_simple_no_body
  by (simp add: liveURLs_def createObjectURL_def simple_window_def)

text \<open>
  C7 (amended): \<open>downloadFile\<close> revokes the object URL it created (the URL
  \<open>nextURL w\<close>) when appending, clicking and removing the link all return normally,
  and it returns normally exactly then. There is no cleanup on the error path: when one
  of the three steps throws, \<open>downloadFile\<close> ends there with that same error, the
  later steps do not run (the document is as the failing step left it), and the object
  URL is still registered.
\<close>

theorem downloadFile_revokes_iff_returns:
  "(appendChild ops (download_link (nextURL w) filename) (document w) = (Inl e, da) \<longrightarrow>
      downloadFile ops fileBlob filename w =
        (Inl e, (snd (createObjectURL fileBlob w))\<lparr>document := da\<rparr>)) \<and>
   (appendChild ops (download_link (nextURL w) filename) (document w) = (Inr (), da) \<and>
    click ops (objectURLs w @ [(nextURL w, fileBlob)]) (download_link (nextURL w) filename) da
      = (Inl e, dc) \<longrightarrow>
      downloadFile ops fileBlob filename w =
        (Inl e, (snd (createObjectURL fileBlob w))\<lparr>document := dc\<rparr>)) \<and>
   (appendChild ops (download_link (nextURL w) filename) (document w) = (Inr (), da) \<and>
    click ops (objectURLs w @ [(nextURL w, fileBlob)]) (download_link (nextURL w) filename) da
      = (Inr (), dc) \<and>
    removeChild ops (download_link (nextURL w) filename) dc = (Inl e, dr) \<longrightarrow>
      downloadFile ops fileBlob filename w =
        (Inl e, (snd (createObjectURL fileBlob w))\<lparr>document := dr\<rparr>)) \<and>
   (appendChild ops (download_link (nextURL w) filename) (document w) = (Inr (), da) \<and>
    click ops (objectURLs w @ [(nextURL w, fileBlob)]) (download_link (nextURL w) filename) da
      = (Inr (), dc) \<and>
    removeChild ops (download_link (nextURL w) filename) dc = (Inr (), dr) \<longrightarrow>
      downloadFile ops fileBlob filename w =
        (Inr (), revokeObjectURL (nextURL w)
                   ((snd (createObjectURL fileBlob w))\<lparr>document := dr\<rparr>))) \<and>
   (fst (downloadFile ops fileBlob filename w) = Inr () \<longleftrightarrow>
      (\<exists>d2 d3 d4.
         appendChild ops (download_link (nextURL w) filename) (document w) = (Inr (), d2) \<and>
         click ops (objectURLs w @ [(nextURL w, fileBlob)]) (download_link (nextURL w) filename) d2
           = (Inr (), d3) \<and>
         removeChild ops (download_link (nextURL w) filename) d3 = (Inr (), d4))) \<and>
   fst (createObjectURL fileBlob w) = nextURL w \<and>
   (fst (downloadFile ops fileBlob filename w) = Inr () \<longrightarrow>
      nextURL w \<notin> set (liveURLs (snd (downloadFile ops fileBlob filename w)))) \<and>
   (fst (downloadFile ops fileBlob filename w) \<noteq> Inr () \<longrightarrow>
      nextURL w \<in> set (liveURLs (snd (downloadFile ops fileBlob filename w))))"
proof (intro conjI impI)
  assume "fst (downloadFile ops fileBlob filename w) \<noteq> Inr ()"
  then obtain e' where "fst (downloadFile ops fileBlob filename w) = Inl e'"
    by (cases "fst (downloadFile ops fileBlob filename w)") auto
  then show "nextURL w \<in> set (liveURLs (snd (downloadFile ops fileBlob filename w)))"
    by (rule downloadFile_throws)
next
  assume "appendChild ops (download_link (nextURL w) filename) (document w) = (Inl e, da)"
  then show "downloadFile ops fileBlob filename w =
      (Inl e, (snd (createObjectURL fileBlob w))\<lparr>document := da\<rparr>)"
    by (simp add: downloadFile_cases)
next
  assume "appendChild ops (download_link (nextURL w) filename) (document w) = (Inr (), da) \<and>
    click ops (objectURLs w @ [(nextURL w, fileBlob)]) (download_link (nextURL w) filename) da
      = (Inl e, dc)"
  then show "downloadFile ops fileBlob filename w =
      (Inl e, (snd (createObjectURL fileBlob w))\<lparr>document := dc\<rparr>)"
    by (simp add: downloadFile_cases)
next
  assume "appendChild ops (download_link (nextURL w) filename) (document w) = (Inr (), da) \<and>
    click ops (objectURLs w @ [(nextURL w, fileBlob)]) (download_link (nextURL w) filename) da
      = (Inr (), dc) \<and>
    removeChild ops (download_link (nextURL w) filename) dc = (Inl e, dr)"
  then show "downloadFile ops fileBlob filename w =
      (Inl e, (snd (createObjectURL fileBlob w))\<lparr>document := dr\<rparr>)"
    by (simp add: downloadFile_cases)
next
  assume "appendChild ops (download_link (nextURL w) filename) (document w) = (Inr (), da) \<and>
    click ops (objectURLs w @ [(nextURL w, fileBlob)]) (download_link (nextURL w) filename) da
      = (Inr (), dc) \<and>
    removeChild ops (download_link (nextURL w) filename) dc = (Inr (), dr)"
  then show "downloadFile ops fileBlob filename w =
      (Inr (), revokeObjectURL (nextURL w)
                 ((snd (createObjectURL fileBlob w))\<lparr>document := dr\<rparr>))"
    by (simp add: downloadFile_cases)
qed (simp_all add: downloadFile_returns_iff downloadFile_returns createObjectURL_def)

theorem downloadFile_revokes_iff_returns_witness:
  "downloadFile simple_ops example_blob ''f.csv'' (simple_window None) =
     (Inl TypeError, \<lparr>objectURLs = [(0, example_blob)], nextURL = 1,
                      document = \<lparr>body = None, saved = []\<rparr>\<rparr>) \<and>
   downloadFile simple_ops example_blob ''f.csv'' (simple_window (Some [])) =
     (Inr (), \<lparr>objectURLs = [], nextURL = 1,
               document = \<lparr>body = Some [], saved = [(Some example_blob, Some ''f.csv'')]\<rparr>\<rparr>) \<and>
   fst (downloadFile simple_ops example_blob ''f.csv'' (simple_window (Some []))) = Inr () \<and>
   0 \<notin> set (liveURLs (snd (downloadFile simple_ops example_blob ''f.csv'' (simple_window (Some []))))) \<and>
   fst (downloadFile simple_ops example_blob ''f.csv'' (simple_window None)) \<noteq> Inr () \<and>
   0 \<in> set (liveURLs (snd (downloadFile simple_ops example_blob ''f.csv'' (simple_window None))))"
proof -
  let ?l = "download_link 0 ''f.csv''"
  let ?da = "\<lparr>body = Some [?l], saved = []\<rparr>"
  let ?dc = "\<lparr>body = Some [?l], saved = [(Some example_blob, Some ''f.csv'')]\<rparr>"
  let ?dr = "\<lparr>body = Some [], saved = [(Some example_blob, Some ''f.csv'')]\<rparr>"
  have n: "nextURL (simple_window b) = 0" "objectURLs (simple_window b) = []"
    "document (simple_window b) = \<lparr>body = b, saved = []\<rparr>" for b
    by (simp_all add: simple_window_def)
  have o: "appendChild simple_ops ?l \<lparr>body = None, saved = []\<rparr> =
      (Inl TypeError, \<lparr>body = None, saved = []\<rparr>)"
    "appendChild simple_ops ?l \<lparr>body = Some [], saved = []\<rparr> = (Inr (), ?da)"
    "click simple_ops [(0, example_blob)] ?l ?da = (Inr (), ?dc)"
    "removeChild simple_ops ?l ?dc = (Inr (), ?dr)"
    by (simp_all add: simple_ops_def download_link_def)
  have c: "(snd (createObjectURL example_blob (simple_window b)))\<lparr>document := d\<rparr> =
      \<lparr>objectURLs = [(0, example_blob)], nextURL = 1, document = d\<rparr>" for b d
    by (simp add: createObjectURL_def simple_window_def)
  have r: "revokeObjectURL 0 \<lparr>objectURLs = [(0, example_blob)], nextURL = n, document = d\<rparr> =
      \<lparr>objectURLs = [], nextURL = n, document = d\<rparr>" for d :: simple_document and n
    by (simp add: revokeObjectURL_def)
  note t1 = downloadFile_revokes_iff_returns [where ops = simple_ops and fileBlob = example_blob
      and filename = "''f.csv''" and w = "simple_window None" and e = TypeError
      and da = "\<lparr>body = None, saved = []\<rparr>" and dc = ?dc and dr = ?dr]
  note t2 = downloadFile_revokes_iff_returns [where ops = simple_ops and fileBlob = example_blob
      and filename = "''f.csv''" and w = "simple_window (Some [])" and e = TypeError
      and da = ?da and dc = ?dc and dr = ?dr]
  have a: "downloadFile simple_ops example_blob ''f.csv'' (simple_window None) =
     (Inl TypeError, \<lparr>objectURLs = [(0, example_blob)], nextURL = 1,
                      document = \<lparr>body = None, saved = []\<rparr>\<rparr>)"
    using t1 by (simp add: n o c)
  have b: "downloadFile simple_ops example_blob ''f.csv'' (simple_window (Some [])) =
     (Inr (), \<lparr>objectURLs = [], nextURL = 1,
               document = \<lparr>body = Some [], saved = [(Some example_blob, Some ''f.csv'')]\<rparr>\<rparr>)"
    using t2 by (simp add: n o c r)
  show ?thesis
    unfolding a b by (simp add: liveURLs_def)
qed

subsection \<open>exportHtml\<close>

text \<open>
  C9: the token in the data handed to the document template is the user's token when
  that is a non-empty string, and the fallback token when it is the empty string,
  \<open>null\<close> or \<open>undefined\<close>; the document delivered is the template's rendering of
  that data.
\<close>

theorem exportHtml_token:
  "(userMapboxToken options = Str s \<and> s \<noteq> [] \<longrightarrow>
      mapboxApiAccessToken (exportHtml_data save state options) = Str s) \<and>
   (userMapboxToken options = Str [] \<or> userMapboxToken options = Null \<or>
    userMapboxToken options = Undefined \<longrightarrow>
      mapboxApiAccessToken (exportHtml_data save state options) = exportMapboxAccessToken options) \<and>
   exportHtml ops save exportMapToHTML state options w =
     downloadFile ops (new_Blob [StringPart (exportMapToHTML (exportHtml_data save state options))]
       ''text/html'') DEFAULT_HTML_NAME w"
  by (auto simp: exportHtml_data_def exportHtml_def Let_def)

theorem exportHtml_token_witness:
  "mapboxApiAccessToken (exportHtml_data (\<lambda>st. st) () (example_html_options (Str ''pk.user'')))
     = Str ''pk.user'' \<and>
   mapboxApiAccessToken (exportHtml_data (\<lambda>st. st) () (example_html_options (Str [])))
     = Str ''pk.fallback'' \<and>
   mapboxApiAccessToken (exportHtml_data (\<lambda>st. st) () (example_html_options Null))
     = Str ''pk.fallback'' \<and>
   mapboxApiAccessToken (exportHtml_data (\<lambda>st. st) () (example_html_options Undefined))
     = Str ''pk.fallback''"
proof -
  let ?tpl = "\<lambda>d :: (unit, unit) export_html_data.
    (case mapboxApiAccessToken d of Str t \<Rightarrow> t | _ \<Rightarrow> [])"
  let ?w = "simple_window (Some [])"
  have o: "userMapboxToken (example_html_options t) = t"
    "exportMapboxAccessToken (example_html_options t) = Str ''pk.fallback''" for t
    by (simp_all add: example_html_options_def)
  show ?thesis
    using exportHtml_token [of "example_html_options (Str ''pk.user'')" "''pk.user''"
        "\<lambda>st. st" "()" simple_ops ?tpl ?w]
      exportHtml_token [of "example_html_options (Str [])" "[]" "\<lambda>st. st" "()" simple_ops ?tpl ?w]
      exportHtml_token [of "example_html_options Null" "[]" "\<lambda>st. st" "()" simple_ops ?tpl ?w]
      exportHtml_token [of "example_html_options Undefined" "[]" "\<lambda>st. st" "()" simple_ops ?tpl ?w]
    by (simp add: o)
qed

subsection \<open>exportData\<close>

lemma forEach_no_effect:
  "(\<And>x w. f x w = (Inr (), w)) \<Longrightarrow> forEach f xs w = (Inr (), w)"
  by (induction xs) simp_all

lemma selectedDatasets_present:
  "distinct (map fst datasets) \<Longrightarrow> (k, d) \<in> set datasets \<Longrightarrow>
   selectedDatasets datasets k = [Own d]"
  by (simp add: selectedDatasets_def js_get_def)

lemma selectedDatasets_absent:
  assumes "k \<notin> fst ` set datasets" "k \<notin> set Object_prototype_keys"
  shows "selectedDatasets datasets k = map (\<lambda>kv. Own (snd kv)) datasets"
proof -
  have "map_of datasets k = None"
    using assms(1) by (simp add: map_of_eq_None_iff)
  then show ?thesis
    using assms(2) by (simp add: selectedDatasets_def js_get_def)
qed

lemma selectedDatasets_inherited:
  assumes "k \<notin> fst ` set datasets" "k \<in> set Object_prototype_keys"
  shows "selectedDatasets datasets k = [Inherited k]"
proof -
  have "map_of datasets k = None"
    using assms(1) by (simp add: map_of_eq_None_iff)
  then show ?thesis
    using assms(2) by (simp add: selectedDatasets_def js_get_def)
qed

lemma exportData_forEach:
  "exportData cfg ops formatCsv formatCsv_undefined datasets option w =
   forEach (exportSelected cfg ops formatCsv formatCsv_undefined DEFAULT_DATA_NAME option)
     (selectedDatasets datasets (selectedDataset option)) w"
  by (simp add: exportData_def Let_def)

lemma exportSelected_Own:
  "exportSelected cfg ops formatCsv formatCsv_undefined filename option (Own d) w =
   exportDataset cfg ops formatCsv filename option d w"
  by (simp add: exportSelected_def)

lemma exportDataset_csv:
  "dataType option = EXPORT_DATA_TYPE_CSV cfg \<Longrightarrow>
   exportDataset cfg ops formatCsv filename option d w =
   downloadFile ops
     (new_Blob [StringPart (formatCsv (toExport (filtered option) d) (fields' d))] ''text/csv'')
     (filename @ ''_'' @ label d @ ''.csv'') w"
  by (simp add: exportDataset_def Let_def)

lemma toExport_filtered:
  "filteredIdxCPU d = Some idx \<Longrightarrow> toExport True d = map (js_nth (allData d)) idx"
  by (simp add: toExport_def)

lemma toExport_filtered_in_range:
  assumes "filteredIdxCPU d = Some idx" "\<forall>i \<in> set idx. i < length (allData d)"
  shows "toExport True d = map (\<lambda>i. Some (allData d ! i)) idx"
  using assms by (simp add: toExport_def js_nth_def)

lemma toExport_unfiltered: "toExport False d = map Some (allData d)"
  by (simp add: toExport_def)

lemma example_dataset_fields:
  "filteredIdxCPU example_dataset = Some [2, 0]"
  "allData example_dataset = [''r0'', ''r1'', ''r2'']"
  "fields' example_dataset = [''name'']"
  "label example_dataset = ''first''"
  by (simp_all add: example_dataset_def)

lemma example_dataset_no_index_fields:
  "filteredIdxCPU example_dataset_no_index = None"
  "allData example_dataset_no_index = [''s0'', ''s1'']"
  "fields' example_dataset_no_index = [''name'']"
  "label example_dataset_no_index = ''second''"
  by (simp_all add: example_dataset_no_index_def)

lemma example_option_fields:
  "selectedDataset (example_option sel ty flt) = sel"
  "dataType (example_option sel ty flt) = ty"
  "filtered (example_option sel ty flt) = flt"
  by (simp_all add: example_option_def)

lemma example_csv: "EXPORT_DATA_TYPE_CSV example_settings = ''csv''"
  by (simp add: example_settings_def)

text \<open>
  A run: an id that is neither in the collection nor inherited, the type CSV and
  \<open>filtered\<close> true. Both datasets are downloaded, in the order of the collection, each
  under its own name.
\<close>

lemma exportData_example_run:
  "exportData example_settings simple_ops example_formatCsv example_formatCsv_undefined
     example_datasets (example_option ''missing-id'' ''csv'' True) (simple_window (Some [])) =
   (Inr (), \<lparr>objectURLs = [], nextURL = 2,
     document = \<lparr>body = Some [],
       saved = [(Some (new_Blob [StringPart (example_formatCsv [Some ''r2'', Some ''r0''] [''name''])]
                   ''text/csv''), Some ''kepler-gl_first.csv''),
                (Some (new_Blob [StringPart (example_formatCsv [] [''name''])] ''text/csv''),
                   Some ''kepler-gl_second.csv'')]\<rparr>\<rparr>)"
proof -
  have s: "selectedDatasets example_datasets ''missing-id'' =
      [Own example_dataset, Own example_dataset_no_index]"
    by (simp add: selectedDatasets_def js_get_def Object_prototype_keys_def example_datasets_def)
  have t: "toExport True example_dataset = [Some ''r2'', Some ''r0'']"
    "toExport True example_dataset_no_index = []"
    by (simp_all add: toExport_def js_nth_def example_dataset_def example_dataset_no_index_def)
  show ?thesis
    by (simp add: exportData_forEach example_option_fields s exportSelected_Own exportDataset_csv
        example_csv t example_dataset_fields example_dataset_no_index_fields DEFAULT_DATA_NAME_def
        simple_window_def downloadFile_simple_run)
qed

text \<open>
  The selection, case by case: an id that is a key selects that dataset alone; an id
  that is neither a key nor the name of a member of \<open>Object.prototype\<close> selects all
  datasets in the order of the collection; an id that is not a key and names such a
  member selects that member alone.
\<close>

lemma selectedDatasets_cases:
  "(distinct (map fst datasets) \<and> (k, d) \<in> set datasets \<longrightarrow>
      selectedDatasets datasets k = [Own d]) \<and>
   (k \<notin> fst ` set datasets \<and> k \<notin> set Object_prototype_keys \<longrightarrow>
      selectedDatasets datasets k = map (\<lambda>kv. Own (snd kv)) datasets) \<and>
   (k \<notin> fst ` set datasets \<and> k \<in> set Object_prototype_keys \<longrightarrow>
      selectedDatasets datasets k = [Inherited k])"
  using selectedDatasets_present [of datasets k d] selectedDatasets_absent [of k datasets]
    selectedDatasets_inherited [of k datasets]
  by blast

lemma selectedDatasets_examples:
  "selectedDatasets example_datasets ''b'' = [Own example_dataset_no_index]"
  "selectedDatasets example_datasets ''missing-id'' = [Own example_dataset, Own example_dataset_no_index]"
  "selectedDatasets example_datasets [] = [Own example_dataset, Own example_dataset_no_index]"
  by (simp_all add: selectedDatasets_def js_get_def Object_prototype_keys_def example_datasets_def)

text \<open>
  C5 at the id \<open>toString\<close>, which is not a key of the collection of the two datasets
  \<open>a\<close> and \<open>b\<close>: the claim has all datasets selected, in order. The read
  \<open>datasets['toString']\<close> finds the function that every object inherits, which is
  truthy, so the code selects that one value and no dataset; with the type CSV it
  serializes without fields and downloads a single file named after the label
  \<open>undefined\<close>. The branch for a missing id, \<open>Object.values\<close>, lists own properties
  only.
\<close>

theorem exportData_inherited_key:
  "''toString'' \<notin> fst ` set example_datasets \<and>
   map (\<lambda>kv. Own (snd kv)) example_datasets = [Own example_dataset, Own example_dataset_no_index] \<and>
   selectedDatasets example_datasets ''toString'' = [Inherited ''toString''] \<and>
   exportData example_settings simple_ops example_formatCsv example_formatCsv_undefined
     example_datasets (example_option ''toString'' ''csv'' False) (simple_window (Some [])) =
   (Inr (), \<lparr>objectURLs = [], nextURL = 1,
     document = \<lparr>body = Some [],
       saved = [(Some (new_Blob [StringPart []] ''text/csv''), Some ''kepler-gl_undefined.csv'')]\<rparr>\<rparr>)"
proof -
  have k: "''toString'' \<notin> fst ` set example_datasets"
    by (simp add: example_datasets_def)
  have s: "selectedDatasets example_datasets ''toString'' = [Inherited ''toString'']"
    by (rule selectedDatasets_inherited [OF k]) (simp add: Object_prototype_keys_def)
  have r: "exportData example_settings simple_ops example_formatCsv example_formatCsv_undefined
     example_datasets (example_option ''toString'' ''csv'' False) (simple_window (Some [])) =
   (Inr (), \<lparr>objectURLs = [], nextURL = 1,
     document = \<lparr>body = Some [],
       saved = [(Some (new_Blob [StringPart []] ''text/csv''), Some ''kepler-gl_undefined.csv'')]\<rparr>\<rparr>)"
    by (simp add: exportData_forEach example_option_fields s exportSelected_def example_csv
        example_formatCsv_undefined_def DEFAULT_DATA_NAME_def simple_window_def
        downloadFile_simple_run)
  show ?thesis
    using k s r by (simp add: example_datasets_def)
qed

text \<open>
  C6: when \<open>filtered\<close> is true, the rows handed to the serializer are the rows of
  \<open>allData\<close> at the indices of \<open>filteredIdxCPU\<close>, in the order of the indices; when
  it is false they are \<open>allData\<close> unchanged. An index beyond \<open>allData\<close> gives
  \<open>undefined\<close>, as \<open>allData[i]\<close> does. The CSV branch serializes those rows with the
  dataset's fields and downloads the result.
\<close>

theorem toExport_spec:
  "(filteredIdxCPU d = Some idx \<longrightarrow> toExport True d = map (js_nth (allData d)) idx) \<and>
   (filteredIdxCPU d = Some idx \<and> (\<forall>i \<in> set idx. i < length (allData d)) \<longrightarrow>
      toExport True d = map (\<lambda>i. Some (allData d ! i)) idx) \<and>
   toExport False d = map Some (allData d) \<and>
   (dataType option = EXPORT_DATA_TYPE_CSV cfg \<longrightarrow>
      exportDataset cfg ops formatCsv filename option d w =
      downloadFile ops
        (new_Blob [StringPart (formatCsv (toExport (filtered option) d) (fields' d))] ''text/csv'')
        (filename @ ''_'' @ label d @ ''.csv'') w)"
  using toExport_filtered [of d idx] toExport_filtered_in_range [of d idx] toExport_unfiltered [of d]
    exportDataset_csv [of option cfg ops formatCsv filename d w]
  by blast

theorem toExport_spec_witness:
  "toExport True example_dataset = [Some ''r2'', Some ''r0''] \<and>
   toExport False example_dataset = [Some ''r0'', Some ''r1'', Some ''r2''] \<and>
   exportDataset example_settings simple_ops example_formatCsv DEFAULT_DATA_NAME
       (example_option ''a'' ''csv'' True) example_dataset (simple_window (Some [])) =
     downloadFile simple_ops
       (new_Blob [StringPart (example_formatCsv [Some ''r2'', Some ''r0''] [''name''])] ''text/csv'')
       ''kepler-gl_first.csv'' (simple_window (Some []))"
proof -
  note a = example_dataset_fields
  note b = example_option_fields example_csv
  note t = toExport_spec [of example_dataset "[2, 0]" "example_option ''a'' ''csv'' True"
      example_settings simple_ops example_formatCsv DEFAULT_DATA_NAME "simple_window (Some [])"]
  have c: "toExport True example_dataset = [Some ''r2'', Some ''r0'']"
    using t a by (simp add: js_nth_def)
  have d: "toExport False example_dataset = [Some ''r0'', Some ''r1'', Some ''r2'']"
    using t a by simp
  have e: "exportDataset example_settings simple_ops example_formatCsv DEFAULT_DATA_NAME
       (example_option ''a'' ''csv'' True) example_dataset (simple_window (Some [])) =
     downloadFile simple_ops
       (new_Blob [StringPart (example_formatCsv [Some ''r2'', Some ''r0''] [''name''])] ''text/csv'')
       ''kepler-gl_first.csv'' (simple_window (Some []))"
    using t a b c by (simp add: DEFAULT_DATA_NAME_def)
  show ?thesis using c d e by simp
qed

text \<open>
  C10: for a dataset without the field \<open>filteredIdxCPU\<close>, the rows to export with
  \<open>filtered\<close> true are the empty sequence (the default \<open>[]\<close> of the destructuring),
  not \<open>allData\<close>, and the CSV branch serializes the empty sequence.
\<close>

theorem toExport_absent_index:
  "filteredIdxCPU d = None \<Longrightarrow>
   toExport True d = [] \<and>
   (dataType option = EXPORT_DATA_TYPE_CSV cfg \<and> filtered option \<longrightarrow>
      exportDataset cfg ops formatCsv filename option d w =
      downloadFile ops (new_Blob [StringPart (formatCsv [] (fields' d))] ''text/csv'')
        (filename @ ''_'' @ label d @ ''.csv'') w)"
  by (simp add: exportDataset_csv) (simp add: toExport_def)

theorem toExport_absent_index_witness:
  "toExport True example_dataset_no_index = [] \<and>
   allData example_dataset_no_index = [''s0'', ''s1''] \<and>
   exportDataset example_settings simple_ops example_formatCsv DEFAULT_DATA_NAME
       (example_option ''b'' ''csv'' True) example_dataset_no_index (simple_window (Some [])) =
     downloadFile simple_ops (new_Blob [StringPart (example_formatCsv [] [''name''])] ''text/csv'')
       ''kepler-gl_second.csv'' (simple_window (Some []))"
  using toExport_absent_index [OF example_dataset_no_index_fields(1),
      of "example_option ''b'' ''csv'' True" example_settings
      simple_ops example_formatCsv DEFAULT_DATA_NAME "simple_window (Some [])"]
    example_dataset_no_index_fields example_option_fields example_csv
  by (simp add: DEFAULT_DATA_NAME_def)

text \<open>
  C8: for a data type other than \<open>EXPORT_DATA_TYPE.CSV\<close>, \<open>exportData\<close> returns
  normally and leaves the window as it was: no object URL is created and nothing is
  downloaded, for any collection and any selection.
\<close>

theorem exportData_unrecognized:
  assumes "dataType option \<noteq> EXPORT_DATA_TYPE_CSV cfg"
  shows "exportData cfg ops formatCsv formatCsv_undefined datasets option w = (Inr (), w)"
proof -
  have "exportSelected cfg ops formatCsv formatCsv_undefined filename option v w' = (Inr (), w')"
    for filename v w'
    using assms by (cases v) (simp_all add: exportSelected_def exportDataset_def)
  then show ?thesis
    by (simp add: exportData_def Let_def forEach_no_effect)
qed

theorem exportData_unrecognized_witness:
  "exportData example_settings simple_ops example_formatCsv example_formatCsv_undefined
     example_datasets (example_option ''a'' ''json'' False) (simple_window (Some [])) =
   (Inr (), simple_window (Some []))"
  using exportData_unrecognized [of "example_option ''a'' ''json'' False"
      example_settings simple_ops example_formatCsv example_formatCsv_undefined example_datasets
      "simple_window (Some [])"]
  by (simp add: example_option_fields example_csv)

end
